theory Spec2Isabelle
  imports Main "HOL-Library.AList"
begin

section \<open>Values, documents and Python built-ins\<close>

text \<open>
  The handlers of \<^verbatim>\<open>src/main.py\<close> work on Python dictionaries holding JSON-like
  values. A document is an association list in insertion order; \<open>map_of\<close> reads it as
  the dictionary it stands for. \<open>VOid n\<close> is an identifier assigned by the store (the
  n-th one handed out), \<open>VDate t\<close> a timestamp.
\<close>

datatype val =
    VNone
  | VBool bool
  | VInt int
  | VStr string
  | VList "val list"
  | VDict "(string \<times> val) list"
  | VOid nat
  | VDate int

type_synonym doc = "(string \<times> val) list"

text \<open>
  Everything a request can end with other than a response: an \<^verbatim>\<open>HTTPException\<close> with
  its status code and detail, the framework's rejection of a request body that does not
  validate (a client error naming the field), and the exceptions that no handler
  catches: a model's \<^verbatim>\<open>ValidationError\<close> raised inside a handler, the store adapter's
  error, and Python's own.
\<close>

datatype error =
    HTTPException nat string
  | RequestValidationError string
  | ValidationError string
  | StoreUnavailable
  | TypeError
  | AttributeError
  | KeyError

definition is_client_error :: "error \<Rightarrow> bool" where
  "is_client_error e =
     (case e of
        HTTPException c _ \<Rightarrow> 400 \<le> c \<and> c < 500
      | RequestValidationError _ \<Rightarrow> True
      | _ \<Rightarrow> False)"

text \<open>Python truth value of a value (\<^verbatim>\<open>if x:\<close>).\<close>

fun truthy :: "val \<Rightarrow> bool" where
  "truthy VNone = False"
| "truthy (VBool b) = b"
| "truthy (VInt i) = (i \<noteq> 0)"
| "truthy (VStr s) = (s \<noteq> [])"
| "truthy (VList xs) = (xs \<noteq> [])"
| "truthy (VDict kvs) = (kvs \<noteq> [])"
| "truthy (VOid n) = True"
| "truthy (VDate t) = True"

text \<open>\<^verbatim>\<open>d.get(k)\<close> and \<^verbatim>\<open>d.get(k, default)\<close>.\<close>

definition dict_get :: "doc \<Rightarrow> string \<Rightarrow> val" where
  "dict_get d k = (case map_of d k of None \<Rightarrow> VNone | Some v \<Rightarrow> v)"

definition dict_get_default :: "doc \<Rightarrow> string \<Rightarrow> val \<Rightarrow> val" where
  "dict_get_default d k dflt = (case map_of d k of None \<Rightarrow> dflt | Some v \<Rightarrow> v)"

text \<open>Decimal rendering of integers, as \<^verbatim>\<open>str\<close> and f-strings produce it.\<close>

definition digit_char :: "nat \<Rightarrow> char" where
  "digit_char n = ''0123456789'' ! (n mod 10)"

function str_nat :: "nat \<Rightarrow> string" where
  "str_nat n = (if n < 10 then [digit_char n] else str_nat (n div 10) @ [digit_char n])"
  by pat_completeness auto
termination
  by (relation "measure (\<lambda>n. n)") auto

declare str_nat.simps [simp del]

definition str_int :: "int \<Rightarrow> string" where
  "str_int i = (if i < 0 then CHR ''-'' # str_nat (nat (- i)) else str_nat (nat i))"

text \<open>
  \<^verbatim>\<open>str(x)\<close>. The handlers apply it to identifiers only. A store-assigned identifier
  is rendered by its counter; the rendering of lists, dictionaries and timestamps is
  schematic, as no handler reaches it.
\<close>

fun py_str :: "val \<Rightarrow> string" where
  "py_str VNone = ''None''"
| "py_str (VBool b) = (if b then ''True'' else ''False'')"
| "py_str (VInt i) = str_int i"
| "py_str (VStr s) = s"
| "py_str (VOid n) = str_nat n"
| "py_str (VList xs) = ''[...]''"
| "py_str (VDict kvs) = ''{...}''"
| "py_str (VDate t) = str_int t"

section \<open>The document store\<close>

text \<open>
  A store maps a collection name to its documents, in insertion order, and counts the
  identifiers it has handed out. The process-wide handle \<^verbatim>\<open>db\<close> is absent
  (\<open>None\<close>) when no store is configured.
\<close>

record store =
  colls :: "string \<Rightarrow> doc list"
  next_id :: nat

type_synonym database = "store option"

text \<open>
  A filter is a dictionary from field names to criteria: a plain value (equality) or
  \<^verbatim>\<open>{"$in": [...]}\<close> (membership; on a list-valued field, some element is a member).
\<close>

datatype criterion = Eq val | In "val list"

type_synonym filt = "(string \<times> criterion) list"

fun crit_holds :: "criterion \<Rightarrow> val \<Rightarrow> bool" where
  "crit_holds (Eq w) v = (v = w)"
| "crit_holds (In ws) v =
     (v \<in> set ws \<or> (case v of VList xs \<Rightarrow> list_ex (\<lambda>x. x \<in> set ws) xs | _ \<Rightarrow> False))"

definition matches :: "filt \<Rightarrow> doc \<Rightarrow> bool" where
  "matches f d =
     list_all (\<lambda>(k, c). case map_of d k of None \<Rightarrow> False | Some v \<Rightarrow> crit_holds c v) f"

text \<open>
  \<^verbatim>\<open>collection(name)\<close> is \<^verbatim>\<open>db[name]\<close>: subscripting an absent handle raises
  \<^verbatim>\<open>TypeError\<close>. The collection handle is the store with the name.
\<close>

definition collection :: "database \<Rightarrow> string \<Rightarrow> error + (store \<times> string)" where
  "collection db name = (case db of None \<Rightarrow> Inl TypeError | Some s \<Rightarrow> Inr (s, name))"

text \<open>The store client's \<^verbatim>\<open>find\<close>, \<^verbatim>\<open>find_one\<close> and \<^verbatim>\<open>update_one\<close> with \<^verbatim>\<open>$set\<close>.\<close>

definition find :: "store \<times> string \<Rightarrow> filt \<Rightarrow> doc list" where
  "find h f = filter (matches f) (colls (fst h) (snd h))"

definition find_one :: "store \<times> string \<Rightarrow> filt \<Rightarrow> doc option" where
  "find_one h f = (case find h f of [] \<Rightarrow> None | d # _ \<Rightarrow> Some d)"

fun set_fields :: "doc \<Rightarrow> doc \<Rightarrow> doc" where
  "set_fields [] d = d"
| "set_fields ((k, v) # kvs) d = set_fields kvs (AList.update k v d)"

fun update_first :: "(doc \<Rightarrow> bool) \<Rightarrow> (doc \<Rightarrow> doc) \<Rightarrow> doc list \<Rightarrow> doc list" where
  "update_first p g [] = []"
| "update_first p g (d # ds) = (if p d then g d # ds else d # update_first p g ds)"

definition update_one :: "store \<times> string \<Rightarrow> filt \<Rightarrow> doc \<Rightarrow> store" where
  "update_one h f kvs =
     (fst h)\<lparr>colls := (colls (fst h))
        (snd h := update_first (matches f) (set_fields kvs) (colls (fst h) (snd h)))\<rparr>"

text \<open>
  Modelled from the spec: the module \<^verbatim>\<open>database\<close> (\<^verbatim>\<open>db\<close>,
  \<^verbatim>\<open>create_document\<close>, \<^verbatim>\<open>get_documents\<close>) is imported by \<^verbatim>\<open>src/main.py\<close> and is
  not among the sources. Section 4.1 of the specification: \<^verbatim>\<open>createDocument\<close> inserts
  one document into the named collection, the store assigns the identifier, the result
  is the identifier as a string, and \<^verbatim>\<open>StoreUnavailable\<close> is signalled without a store
  connection. The in-memory store has no lower-level write failure.
\<close>

definition create_document :: "database \<Rightarrow> string \<Rightarrow> doc \<Rightarrow> database \<times> (error + string)" where
  "create_document db name d =
     (case db of
        None \<Rightarrow> (db, Inl StoreUnavailable)
      | Some s \<Rightarrow>
          (Some (s\<lparr>colls := (colls s)(name := colls s name @ [(''_id'', VOid (next_id s)) # d]),
                    next_id := Suc (next_id s)\<rparr>),
           Inr (py_str (VOid (next_id s)))))"

text \<open>
  Modelled from the spec: \<^verbatim>\<open>getDocuments\<close> of section 4.1 returns all matching
  records, or up to \<^verbatim>\<open>limit\<close> of them, in the store's order, each with its internal
  identifier attached; \<^verbatim>\<open>StoreUnavailable\<close> without a store connection; the empty
  sequence when nothing matches.
\<close>

definition get_documents :: "database \<Rightarrow> string \<Rightarrow> filt \<Rightarrow> int option \<Rightarrow> error + doc list" where
  "get_documents db name f limit =
     (case db of
        None \<Rightarrow> Inl StoreUnavailable
      | Some s \<Rightarrow>
          Inr (case limit of
                 None \<Rightarrow> find (s, name) f
               | Some n \<Rightarrow> take (nat n) (find (s, name) f)))"

section \<open>Authentication\<close>

text \<open>
  Field names carry the name of their model as a prefix where two models share a field
  name. \<^verbatim>\<open>hash\<close> is Python's string hash, fixed for one process, and
  \<^verbatim>\<open>email_ok\<close> the \<^verbatim>\<open>EmailStr\<close> check of the \<^verbatim>\<open>User\<close> model; both are parameters.
\<close>

record SignupRequest =
  su_name :: string
  su_email :: string
  su_password :: string

record LoginRequest =
  li_email :: string
  li_password :: string

datatype tier = Free | Pro

fun tier_str :: "tier \<Rightarrow> string" where
  "tier_str Free = ''free''"
| "tier_str Pro = ''pro''"

record User =
  user_name :: string
  user_email :: string
  password_hash :: string
  user_plan :: tier
  preferences :: "doc option"
  streak :: int

definition User_init :: "(string \<Rightarrow> bool) \<Rightarrow> string \<Rightarrow> string \<Rightarrow> string \<Rightarrow> error + User" where
  "User_init email_ok n e ph =
     (if email_ok e
      then Inr \<lparr>user_name = n, user_email = e, password_hash = ph, user_plan = Free,
                preferences = Some [], streak = 0\<rparr>
      else Inl (ValidationError ''email''))"

definition User_dump :: "User \<Rightarrow> doc" where
  "User_dump u =
     [(''name'', VStr (user_name u)), (''email'', VStr (user_email u)),
      (''password_hash'', VStr (password_hash u)), (''plan'', VStr (tier_str (user_plan u))),
      (''preferences'', (case preferences u of None \<Rightarrow> VNone | Some p \<Rightarrow> VDict p)),
      (''streak'', VInt (streak u))]"

text \<open>
  \<^verbatim>\<open>if not db\<close> holds of the absent handle. \<^verbatim>\<open>if existing\<close> and \<^verbatim>\<open>if not u\<close> test
  the result of \<^verbatim>\<open>find_one\<close>: a record counts as found when it is a non-empty
  dictionary. \<^verbatim>\<open>u["_id"]\<close> raises \<^verbatim>\<open>KeyError\<close> on a record without the key.
\<close>

definition signup ::
  "(string \<Rightarrow> int) \<Rightarrow> (string \<Rightarrow> bool) \<Rightarrow> database \<Rightarrow> SignupRequest \<Rightarrow> database \<times> (error + val)" where
  "signup hash email_ok db payload =
     (if db = None then (db, Inl (HTTPException 500 ''Database unavailable''))
      else case collection db ''user'' of
        Inl e \<Rightarrow> (db, Inl e)
      | Inr h \<Rightarrow>
          (case find_one h [(''email'', Eq (VStr (su_email payload)))] of
             Some (x # xs) \<Rightarrow> (db, Inl (HTTPException 400 ''Email already registered''))
           | _ \<Rightarrow>
              (case User_init email_ok (su_name payload) (su_email payload)
                      (''sha1::'' @ str_int (abs (hash (su_password payload)))) of
                 Inl e \<Rightarrow> (db, Inl e)
               | Inr user \<Rightarrow>
                  (case create_document db ''user'' (User_dump user) of
                     (db', Inl e) \<Rightarrow> (db', Inl e)
                   | (db', Inr new_id) \<Rightarrow> (db', Inr (VDict [(''id'', VStr new_id)]))))))"

definition login ::
  "(string \<Rightarrow> int) \<Rightarrow> database \<Rightarrow> LoginRequest \<Rightarrow> database \<times> (error + val)" where
  "login hash db payload =
     (case collection db ''user'' of
        Inl e \<Rightarrow> (db, Inl e)
      | Inr h \<Rightarrow>
          (case find_one h [(''email'', Eq (VStr (li_email payload)))] of
             Some (x # xs) \<Rightarrow>
               (let u = x # xs; expected = dict_get u ''password_hash'' in
                if expected \<noteq> VStr (''sha1::'' @ str_int (abs (hash (li_password payload))))
                then (db, Inl (HTTPException 401 ''Invalid credentials''))
                else
                  (let token = ''tok_'' @ str_int (abs (hash (li_email payload @ li_password payload))) in
                   case collection db ''user'' of
                     Inl e \<Rightarrow> (db, Inl e)
                   | Inr h' \<Rightarrow>
                      (case map_of u ''_id'' of
                         None \<Rightarrow> (db, Inl KeyError)
                       | Some uid \<Rightarrow>
                          (Some (update_one h' [(''_id'', Eq uid)] [(''session_token'', VStr token)]),
                           Inr (VDict
                             [(''token'', VStr token),
                              (''user'', VDict
                                 [(''id'', VStr (py_str uid)),
                                  (''name'', dict_get u ''name''),
                                  (''email'', dict_get u ''email''),
                                  (''plan'', dict_get_default u ''plan'' (VStr ''free''))])])))))
           | _ \<Rightarrow> (db, Inl (HTTPException 404 ''User not found''))))"

section \<open>Schemas\<close>

text \<open>
  The models of \<^verbatim>\<open>src/schemas.py\<close>. A \<^verbatim>\<open>Literal\<close> of strings is a datatype
  with its rendering, an \<^verbatim>\<open>Optional\<close> field an option. Each \<open>_dump\<close> is the
  dictionary of the model's fields in declaration order, which is what the store
  receives.
\<close>

definition opt_str :: "string option \<Rightarrow> val" where
  "opt_str x = (case x of None \<Rightarrow> VNone | Some s \<Rightarrow> VStr s)"

definition opt_int :: "int option \<Rightarrow> val" where
  "opt_int x = (case x of None \<Rightarrow> VNone | Some i \<Rightarrow> VInt i)"

datatype category = Art | Movement | Mindfulness

fun category_str :: "category \<Rightarrow> string" where
  "category_str Art = ''art''"
| "category_str Movement = ''movement''"
| "category_str Mindfulness = ''mindfulness''"

datatype mood = Great | Good | Ok | Low

fun mood_str :: "mood \<Rightarrow> string" where
  "mood_str Great = ''great''"
| "mood_str Good = ''good''"
| "mood_str Ok = ''ok''"
| "mood_str Low = ''low''"

record ContentItem =
  ci_title :: string
  ci_description :: "string option"
  ci_category :: category
  ci_tags :: "string list"
  ci_tier :: tier
  ci_duration_minutes :: "int option"
  ci_media_url :: "string option"

definition ContentItem_dump :: "ContentItem \<Rightarrow> doc" where
  "ContentItem_dump c =
     [(''title'', VStr (ci_title c)), (''description'', opt_str (ci_description c)),
      (''category'', VStr (category_str (ci_category c))),
      (''tags'', VList (map VStr (ci_tags c))), (''tier'', VStr (tier_str (ci_tier c))),
      (''duration_minutes'', opt_int (ci_duration_minutes c)),
      (''media_url'', opt_str (ci_media_url c))]"

record Task =
  task_user_id :: string
  task_week :: string
  task_type :: string
  task_notes :: "string option"
  task_completed :: bool

definition Task_dump :: "Task \<Rightarrow> doc" where
  "Task_dump t =
     [(''user_id'', VStr (task_user_id t)), (''week'', VStr (task_week t)),
      (''task_type'', VStr (task_type t)), (''notes'', opt_str (task_notes t)),
      (''completed'', VBool (task_completed t))]"

record Checkin =
  checkin_user_id :: string
  checkin_mood :: mood
  checkin_note :: "string option"
  checkin_date :: int

definition Checkin_dump :: "Checkin \<Rightarrow> doc" where
  "Checkin_dump c =
     [(''user_id'', VStr (checkin_user_id c)), (''mood'', VStr (mood_str (checkin_mood c))),
      (''note'', opt_str (checkin_note c)), (''date'', VDate (checkin_date c))]"

record Squad =
  squad_name :: string
  squad_description :: "string option"
  owner_id :: string
  members :: "string list"

definition Squad_dump :: "Squad \<Rightarrow> doc" where
  "Squad_dump q =
     [(''name'', VStr (squad_name q)), (''description'', opt_str (squad_description q)),
      (''owner_id'', VStr (owner_id q)), (''members'', VList (map VStr (members q)))]"

record Post =
  post_user_id :: string
  post_squad_id :: "string option"
  post_text :: string
  post_created_at :: int

definition Post_dump :: "Post \<Rightarrow> doc" where
  "Post_dump p =
     [(''user_id'', VStr (post_user_id p)), (''squad_id'', opt_str (post_squad_id p)),
      (''text'', VStr (post_text p)), (''created_at'', VDate (post_created_at p))]"

record Program =
  prog_title :: string
  prog_description :: "string option"
  prog_weeks :: int
  prog_tier :: tier

definition Program_dump :: "Program \<Rightarrow> doc" where
  "Program_dump p =
     [(''title'', VStr (prog_title p)), (''description'', opt_str (prog_description p)),
      (''weeks'', VInt (prog_weeks p)), (''tier'', VStr (tier_str (prog_tier p)))]"

record Enrollment =
  enr_user_id :: string
  enr_program_id :: string
  enr_progress_week :: int

definition Enrollment_dump :: "Enrollment \<Rightarrow> doc" where
  "Enrollment_dump e =
     [(''user_id'', VStr (enr_user_id e)), (''program_id'', VStr (enr_program_id e)),
      (''progress_week'', VInt (enr_progress_week e))]"

record Feedback =
  fb_user_id :: "string option"
  fb_message :: string
  fb_rating :: "int option"

text \<open>
  Building a \<^verbatim>\<open>Feedback\<close> checks \<^verbatim>\<open>rating: Optional[int] = Field(None, ge=1, le=5)\<close>.
\<close>

definition Feedback_init :: "string option \<Rightarrow> string \<Rightarrow> int option \<Rightarrow> error + Feedback" where
  "Feedback_init uid msg r =
     (case r of
        None \<Rightarrow> Inr \<lparr>fb_user_id = uid, fb_message = msg, fb_rating = None\<rparr>
      | Some n \<Rightarrow>
          if 1 \<le> n \<and> n \<le> 5
          then Inr \<lparr>fb_user_id = uid, fb_message = msg, fb_rating = Some n\<rparr>
          else Inl (ValidationError ''rating''))"

definition Feedback_dump :: "Feedback \<Rightarrow> doc" where
  "Feedback_dump f =
     [(''user_id'', opt_str (fb_user_id f)), (''message'', VStr (fb_message f)),
      (''rating'', opt_int (fb_rating f))]"

section \<open>Strings\<close>

text \<open>
  A \<open>char\<close> is a code point below 256, so a string is a text over U+0000 to U+00FF;
  text beyond that range is outside the model. \<^verbatim>\<open>s.lower()\<close>: among these code points
  Python lowers the letters A to Z (65 to 90) and the capitals U+00C0 to U+00DE
  (192 to 222) other than the multiplication sign U+00D7 (215), each to the code point
  32 above, and leaves every other one as it is. \<open>str_in\<close> is the substring test
  \<^verbatim>\<open>q in s\<close>.
\<close>

definition lower_char :: "char \<Rightarrow> char" where
  "lower_char c =
     (let n = (of_char c :: nat) in
      if (65 \<le> n \<and> n \<le> 90) \<or> (192 \<le> n \<and> n \<le> 222 \<and> n \<noteq> 215)
      then char_of (n + 32)
      else c)"

definition lower :: "string \<Rightarrow> string" where
  "lower s = map lower_char s"

fun str_in :: "string \<Rightarrow> string \<Rightarrow> bool" where
  "str_in q [] = (q = [])"
| "str_in q (c # cs) = (take (length q) (c # cs) = q \<or> str_in q cs)"

text \<open>\<^verbatim>\<open>x.lower()\<close> on a value: only a string has the method.\<close>

definition py_lower :: "val \<Rightarrow> error + string" where
  "py_lower v = (case v of VStr s \<Rightarrow> Inr (lower s) | _ \<Rightarrow> Inl AttributeError)"

section \<open>Route handlers\<close>

text \<open>
  Each handler is the body of the function in \<^verbatim>\<open>src/main.py\<close>: a write handler
  returns the store it leaves with its result, a read handler its result only, as it
  changes nothing. The serialisation that the framework applies to a returned value
  (\<^verbatim>\<open>response_model\<close>) is not part of the model.
\<close>

text \<open>\<^verbatim>\<open>new_id = create_document(...); return {"id": new_id}\<close>.\<close>

definition id_response :: "database \<times> (error + string) \<Rightarrow> database \<times> (error + val)" where
  "id_response r =
     (case r of
        (db', Inl e) \<Rightarrow> (db', Inl e)
      | (db', Inr new_id) \<Rightarrow> (db', Inr (VDict [(''id'', VStr new_id)])))"

text \<open>\<^verbatim>\<open>if x: filt[k] = x\<close> for an optional string parameter.\<close>

definition set_if :: "string option \<Rightarrow> string \<Rightarrow> filt \<Rightarrow> filt" where
  "set_if x k f =
     (case x of
        None \<Rightarrow> f
      | Some v \<Rightarrow> if v \<noteq> [] then AList.update k (Eq (VStr v)) f else f)"

text \<open>\<^verbatim>\<open>d["id"] = str(d.pop("_id")) if d.get("_id") else None\<close>.\<close>

definition with_id :: "doc \<Rightarrow> doc" where
  "with_id d =
     (if truthy (dict_get d ''_id'')
      then AList.update ''id'' (VStr (py_str (dict_get d ''_id''))) (AList.delete ''_id'' d)
      else AList.update ''id'' VNone d)"

text \<open>
  The search of \<^verbatim>\<open>list_content\<close>:
  \<^verbatim>\<open>ql in i.get("title", "").lower() or ql in (i.get("description", "").lower())\<close>,
  the second operand evaluated only when the first is false, and the list comprehension
  over the items, which stops at the first error.
\<close>

definition search_hit :: "string \<Rightarrow> doc \<Rightarrow> error + bool" where
  "search_hit ql i =
     (case py_lower (dict_get_default i ''title'' (VStr [])) of
        Inl e \<Rightarrow> Inl e
      | Inr t \<Rightarrow>
          if str_in ql t then Inr True
          else (case py_lower (dict_get_default i ''description'' (VStr [])) of
                  Inl e \<Rightarrow> Inl e
                | Inr d \<Rightarrow> Inr (str_in ql d)))"

fun search :: "string \<Rightarrow> doc list \<Rightarrow> error + doc list" where
  "search ql [] = Inr []"
| "search ql (i # items) =
     (case search_hit ql i of
        Inl e \<Rightarrow> Inl e
      | Inr b \<Rightarrow>
          (case search ql items of
             Inl e \<Rightarrow> Inl e
           | Inr r \<Rightarrow> Inr (if b then i # r else r)))"

definition list_content ::
  "database \<Rightarrow> string option \<Rightarrow> string option \<Rightarrow> string option \<Rightarrow> error + doc list" where
  "list_content db category q tier =
     (let filt = set_if tier ''tier'' (set_if category ''category'' []) in
      case get_documents db ''contentitem'' filt None of
        Inl e \<Rightarrow> Inl e
      | Inr items \<Rightarrow>
          (case (case q of
                   None \<Rightarrow> Inr items
                 | Some qs \<Rightarrow> if qs \<noteq> [] then search (lower qs) items else Inr items) of
             Inl e \<Rightarrow> Inl e
           | Inr items' \<Rightarrow> Inr (map (AList.delete ''_id'') items')))"

definition add_content :: "database \<Rightarrow> ContentItem \<Rightarrow> database \<times> (error + val)" where
  "add_content db item = id_response (create_document db ''contentitem'' (ContentItem_dump item))"

definition submit_task :: "database \<Rightarrow> Task \<Rightarrow> database \<times> (error + val)" where
  "submit_task db task = id_response (create_document db ''task'' (Task_dump task))"

definition list_tasks :: "database \<Rightarrow> string \<Rightarrow> string option \<Rightarrow> error + doc list" where
  "list_tasks db user_id week =
     (let filt = set_if week ''week'' [(''user_id'', Eq (VStr user_id))] in
      case get_documents db ''task'' filt None of
        Inl e \<Rightarrow> Inl e
      | Inr tasks \<Rightarrow> Inr (map with_id tasks))"

definition create_checkin :: "database \<Rightarrow> Checkin \<Rightarrow> database \<times> (error + val)" where
  "create_checkin db checkin = id_response (create_document db ''checkin'' (Checkin_dump checkin))"

text \<open>An omitted \<^verbatim>\<open>limit\<close> (\<open>None\<close>) takes the default of the signature.\<close>

definition list_checkins :: "database \<Rightarrow> string \<Rightarrow> int option \<Rightarrow> error + doc list" where
  "list_checkins db user_id limit =
     (let lim = (case limit of None \<Rightarrow> 30 | Some n \<Rightarrow> n) in
      case get_documents db ''checkin'' [(''user_id'', Eq (VStr user_id))] (Some lim) of
        Inl e \<Rightarrow> Inl e
      | Inr docs \<Rightarrow> Inr (map with_id docs))"

definition create_squad :: "database \<Rightarrow> Squad \<Rightarrow> database \<times> (error + val)" where
  "create_squad db squad =
     (let squad' = (if owner_id squad \<notin> set (members squad)
                    then squad\<lparr>members := members squad @ [owner_id squad]\<rparr>
                    else squad) in
      id_response (create_document db ''squad'' (Squad_dump squad')))"

definition list_squads :: "database \<Rightarrow> string option \<Rightarrow> error + doc list" where
  "list_squads db member_id =
     (let filt = (case member_id of
                    None \<Rightarrow> []
                  | Some m \<Rightarrow> if m \<noteq> [] then [(''members'', In [VStr m])] else []) in
      case get_documents db ''squad'' filt None of
        Inl e \<Rightarrow> Inl e
      | Inr docs \<Rightarrow> Inr (map with_id docs))"

definition create_post :: "database \<Rightarrow> Post \<Rightarrow> database \<times> (error + val)" where
  "create_post db post = id_response (create_document db ''post'' (Post_dump post))"

definition list_posts ::
  "database \<Rightarrow> string option \<Rightarrow> string option \<Rightarrow> int option \<Rightarrow> error + doc list" where
  "list_posts db squad_id user_id limit =
     (let lim = (case limit of None \<Rightarrow> 50 | Some n \<Rightarrow> n);
          filt = set_if user_id ''user_id'' (set_if squad_id ''squad_id'' []) in
      case get_documents db ''post'' filt (Some lim) of
        Inl e \<Rightarrow> Inl e
      | Inr docs \<Rightarrow> Inr (map with_id docs))"

definition create_program :: "database \<Rightarrow> Program \<Rightarrow> database \<times> (error + val)" where
  "create_program db program = id_response (create_document db ''program'' (Program_dump program))"

definition list_programs :: "database \<Rightarrow> string option \<Rightarrow> error + doc list" where
  "list_programs db tier =
     (let filt = set_if tier ''tier'' [] in
      case get_documents db ''program'' filt None of
        Inl e \<Rightarrow> Inl e
      | Inr docs \<Rightarrow> Inr (map (AList.delete ''_id'') docs))"

definition enroll_user :: "database \<Rightarrow> Enrollment \<Rightarrow> database \<times> (error + val)" where
  "enroll_user db enrollment =
     id_response (create_document db ''enrollment'' (Enrollment_dump enrollment))"

definition list_enrollments :: "database \<Rightarrow> string \<Rightarrow> error + doc list" where
  "list_enrollments db user_id =
     (case get_documents db ''enrollment'' [(''user_id'', Eq (VStr user_id))] None of
        Inl e \<Rightarrow> Inl e
      | Inr docs \<Rightarrow> Inr (map with_id docs))"

definition submit_feedback :: "database \<Rightarrow> Feedback \<Rightarrow> database \<times> (error + val)" where
  "submit_feedback db feedback = id_response (create_document db ''feedback'' (Feedback_dump feedback))"

text \<open>
  The route \<^verbatim>\<open>POST /feedback\<close>: the framework builds the \<^verbatim>\<open>Feedback\<close> from the
  request body, answers a body that does not validate with its own client error, and
  calls the handler only with a model that was built.
\<close>

definition post_feedback ::
  "database \<Rightarrow> string option \<Rightarrow> string \<Rightarrow> int option \<Rightarrow> database \<times> (error + val)" where
  "post_feedback db uid msg r =
     (case Feedback_init uid msg r of
        Inl (ValidationError field) \<Rightarrow> (db, Inl (RequestValidationError field))
      | Inl e \<Rightarrow> (db, Inl e)
      | Inr feedback \<Rightarrow> submit_feedback db feedback)"

section \<open>The library search as the specification words it\<close>

text \<open>
  The specification's reading of \<^verbatim>\<open>GET /library\<close> with a search term: the stored
  content items that satisfy the category and tier equality filters (a parameter that
  is omitted or empty sets no filter) and whose title or description contains the term
  as a case-insensitive substring, each without its internal identifier.
  \<open>text_or_absent\<close> says that a field holds a string or is missing, and
  \<open>searchable\<close> that the search term can be tested on a record: its title is a string
  or missing, and either the title contains the term or the description is a string or
  missing.
\<close>

definition contains_ci :: "string \<Rightarrow> val option \<Rightarrow> bool" where
  "contains_ci q v = (case v of Some (VStr s) \<Rightarrow> str_in (lower q) (lower s) | _ \<Rightarrow> False)"

definition field_ok :: "string option \<Rightarrow> string \<Rightarrow> doc \<Rightarrow> bool" where
  "field_ok x k d = (case x of None \<Rightarrow> True | Some v \<Rightarrow> v = [] \<or> map_of d k = Some (VStr v))"

definition library_spec :: "store \<Rightarrow> string option \<Rightarrow> string \<Rightarrow> string option \<Rightarrow> doc list" where
  "library_spec s category q tier =
     map (AList.delete ''_id'')
       (filter (\<lambda>d. field_ok category ''category'' d \<and> field_ok tier ''tier'' d \<and>
                     (contains_ci q (map_of d ''title'') \<or> contains_ci q (map_of d ''description'')))
          (colls s ''contentitem''))"

definition text_or_absent :: "val option \<Rightarrow> bool" where
  "text_or_absent v = (case v of None \<Rightarrow> True | Some (VStr s) \<Rightarrow> True | _ \<Rightarrow> False)"

definition searchable :: "string \<Rightarrow> doc \<Rightarrow> bool" where
  "searchable q d =
     (text_or_absent (map_of d ''title'') \<and>
      (contains_ci q (map_of d ''title'') \<or> text_or_absent (map_of d ''description'')))"

section \<open>Identifiers in the store and in responses\<close>

text \<open>
  The invariant of section 3 of the specification: every stored record carries the
  identifier the store assigned to it (\<open>wf_store\<close>). A response record hides the
  internal identifier when it has no key \<^verbatim>\<open>_id\<close>, and carries the normalized one when
  its \<^verbatim>\<open>id\<close> is a string.
\<close>

definition has_oid :: "doc \<Rightarrow> bool" where
  "has_oid d = (case map_of d ''_id'' of Some (VOid n) \<Rightarrow> True | _ \<Rightarrow> False)"

definition wf_store :: "store \<Rightarrow> bool" where
  "wf_store s = (\<forall>name. list_all has_oid (colls s name))"

definition no_internal_id :: "doc \<Rightarrow> bool" where
  "no_internal_id d = (''_id'' \<notin> fst ` set d)"

definition has_string_id :: "doc \<Rightarrow> bool" where
  "has_string_id d = (case map_of d ''id'' of Some (VStr i) \<Rightarrow> True | _ \<Rightarrow> False)"

text \<open>The squad that \<^verbatim>\<open>create_squad\<close> hands to the store: the owner is a member.\<close>

definition normalized :: "Squad \<Rightarrow> Squad" where
  "normalized q =
     (if owner_id q \<in> set (members q) then q else q\<lparr>members := members q @ [owner_id q]\<rparr>)"

section \<open>Example data\<close>

definition empty_store :: store where
  "empty_store = \<lparr>colls = (\<lambda>_. []), next_id = 0\<rparr>"

definition len_hash :: "string \<Rightarrow> int" where
  "len_hash s = - int (length s)"

definition alice :: SignupRequest where
  "alice = \<lparr>su_name = ''Alice'', su_email = ''alice@example.org'', su_password = ''secret''\<rparr>"

definition alice_doc :: doc where
  "alice_doc =
     [(''_id'', VOid 0), (''name'', VStr ''Alice''), (''email'', VStr ''alice@example.org''),
      (''password_hash'', VStr ''sha1::6''), (''plan'', VStr ''free''),
      (''preferences'', VDict []), (''streak'', VInt 0)]"

definition one_user :: store where
  "one_user = \<lparr>colls = (\<lambda>_. [])(''user'' := [alice_doc]), next_id = 1\<rparr>"

definition morning_crew :: Squad where
  "morning_crew =
     \<lparr>squad_name = ''Morning Crew'', squad_description = None, owner_id = ''u1'', members = []\<rparr>"

definition breathing_101 :: ContentItem where
  "breathing_101 =
     \<lparr>ci_title = ''Breathing 101'', ci_description = None, ci_category = Mindfulness, ci_tags = [],
      ci_tier = Free, ci_duration_minutes = None, ci_media_url = None\<rparr>"

definition breathing_doc :: doc where
  "breathing_doc =
     [(''title'', VStr ''Breathing 101''), (''description'', VNone),
      (''category'', VStr ''mindfulness''), (''tags'', VList []), (''tier'', VStr ''free''),
      (''duration_minutes'', VNone), (''media_url'', VNone)]"

definition yoga_doc :: doc where
  "yoga_doc =
     [(''title'', VStr ''Sunrise Flow''), (''description'', VStr ''Gentle Yoga for mornings''),
      (''category'', VStr ''movement''), (''tags'', VList [VStr ''yoga'']), (''tier'', VStr ''free''),
      (''duration_minutes'', VInt 20), (''media_url'', VNone)]"

definition sketch_doc :: doc where
  "sketch_doc =
     [(''title'', VStr ''Sketching''), (''description'', VStr ''Pencil basics''),
      (''category'', VStr ''art''), (''tags'', VList []), (''tier'', VStr ''pro''),
      (''duration_minutes'', VNone), (''media_url'', VNone)]"

definition library_2 :: store where
  "library_2 =
     \<lparr>colls = (\<lambda>_. [])(''contentitem'' := [(''_id'', VOid 0) # yoga_doc, (''_id'', VOid 1) # sketch_doc]),
      next_id = 2\<rparr>"

definition library_1 :: store where
  "library_1 = \<lparr>colls = (\<lambda>_. [])(''contentitem'' := [(''_id'', VOid 0) # breathing_doc]), next_id = 1\<rparr>"

definition stretch_doc :: doc where
  "stretch_doc =
     [(''title'', VStr ''Morning Stretch''), (''description'', VNone),
      (''category'', VStr ''movement''), (''tags'', VList []), (''tier'', VStr ''free''),
      (''duration_minutes'', VNone), (''media_url'', VNone)]"

definition library_3 :: store where
  "library_3 =
     \<lparr>colls = (\<lambda>_. [])
        (''contentitem'' := [(''_id'', VOid 0) # breathing_doc, (''_id'', VOid 1) # stretch_doc]),
      next_id = 2\<rparr>"

definition task_u2 :: Task where
  "task_u2 = \<lparr>task_user_id = ''u2'', task_week = ''2024-W01'', task_type = ''walk'',
              task_notes = None, task_completed = True\<rparr>"

definition checkin_u2 :: Checkin where
  "checkin_u2 = \<lparr>checkin_user_id = ''u2'', checkin_mood = Good, checkin_note = None,
                 checkin_date = 1700000000\<rparr>"

definition squad_u2 :: Squad where
  "squad_u2 = \<lparr>squad_name = ''Night Owls'', squad_description = None, owner_id = ''u2'',
               members = [''u2'']\<rparr>"

definition post_u2 :: Post where
  "post_u2 = \<lparr>post_user_id = ''u2'', post_squad_id = None, post_text = ''hello'',
              post_created_at = 1700000001\<rparr>"

definition program_pro :: Program where
  "program_pro = \<lparr>prog_title = ''Reset'', prog_description = None, prog_weeks = 4, prog_tier = Pro\<rparr>"

definition enrollment_u2 :: Enrollment where
  "enrollment_u2 = \<lparr>enr_user_id = ''u2'', enr_program_id = ''p1'', enr_progress_week = 0\<rparr>"

definition demo_store :: store where
  "demo_store =
     \<lparr>colls = (\<lambda>_. [])
        (''user'' := [alice_doc],
         ''contentitem'' := [(''_id'', VOid 1) # breathing_doc],
         ''task'' := [(''_id'', VOid 2) # Task_dump task_u2],
         ''checkin'' := [(''_id'', VOid 3) # Checkin_dump checkin_u2],
         ''squad'' := [(''_id'', VOid 4) # Squad_dump squad_u2],
         ''post'' := [(''_id'', VOid 5) # Post_dump post_u2],
         ''program'' := [(''_id'', VOid 6) # Program_dump program_pro],
         ''enrollment'' := [(''_id'', VOid 7) # Enrollment_dump enrollment_u2]),
      next_id = 8\<rparr>"

definition checkin_nr :: "nat \<Rightarrow> doc" where
  "checkin_nr n =
     (''_id'', VOid n) #
     Checkin_dump \<lparr>checkin_user_id = ''u1'', checkin_mood = Ok, checkin_note = None,
                   checkin_date = int n\<rparr>"

definition many_checkins :: store where
  "many_checkins = \<lparr>colls = (\<lambda>_. [])(''checkin'' := map checkin_nr [0..<31]), next_id = 31\<rparr>"

definition post_nr :: "nat \<Rightarrow> doc" where
  "post_nr n =
     (''_id'', VOid n) #
     Post_dump \<lparr>post_user_id = ''u1'', post_squad_id = None, post_text = ''hello'',
                post_created_at = int n\<rparr>"

definition many_posts :: store where
  "many_posts = \<lparr>colls = (\<lambda>_. [])(''post'' := map post_nr [0..<51]), next_id = 51\<rparr>"

definition anonymous_post :: Post where
  "anonymous_post = \<lparr>post_user_id = [], post_squad_id = None, post_text = ''hi'',
                      post_created_at = 1700000002\<rparr>"

section \<open>Facts about the store client\<close>

lemma find_one_None_iff:
  "find_one h f = None \<longleftrightarrow> (\<forall>d\<in>set (colls (fst h) (snd h)). \<not> matches f d)"
proof -
  have "find_one h f = None \<longleftrightarrow> filter (matches f) (colls (fst h) (snd h)) = []"
    by (simp add: find_one_def find_def split: list.splits)
  then show ?thesis by (simp add: filter_empty_conv)
qed

lemma find_one_SomeD:
  "find_one h f = Some u \<Longrightarrow> u \<in> set (colls (fst h) (snd h)) \<and> matches f u"
proof -
  assume "find_one h f = Some u"
  then obtain ds where "find h f = u # ds"
    by (auto simp: find_one_def split: list.splits)
  then have "u \<in> set (filter (matches f) (colls (fst h) (snd h)))"
    by (simp add: find_def)
  then show ?thesis by simp
qed

lemma matches_Eq1 [simp]: "matches [(k, Eq v)] d \<longleftrightarrow> map_of d k = Some v"
  by (auto simp: matches_def split: option.splits)

section \<open>Signup and login: errors and the store\<close>

text \<open>
  C10. Without a configured store, \<^verbatim>\<open>login\<close> ends in the unhandled \<^verbatim>\<open>TypeError\<close> of
  subscripting the absent handle, where \<^verbatim>\<open>signup\<close> answers with its 500 response
  "Database unavailable"; neither touches the handle.
\<close>

theorem login_unguarded_without_store:
  "login hash None p = (None, Inl TypeError) \<and>
   signup hash email_ok None q = (None, Inl (HTTPException 500 ''Database unavailable''))"
  by (simp add: login_def signup_def collection_def)

text \<open>
  C4. When some record of the user collection carries the email of the signup request,
  \<^verbatim>\<open>signup\<close> ends with the 400 response "Email already registered", a client error,
  and the store it leaves is the store it found: no second user record is inserted.
\<close>

theorem signup_conflict:
  assumes "d \<in> set (colls s ''user'')" and "map_of d ''email'' = Some (VStr (su_email p))"
  shows "signup hash email_ok (Some s) p =
           (Some s, Inl (HTTPException 400 ''Email already registered'')) \<and>
         is_client_error (HTTPException 400 ''Email already registered'')"
proof -
  let ?f = "[(''email'', Eq (VStr (su_email p)))]"
  have "find_one (s, ''user'') ?f \<noteq> None"
    using assms by (auto simp: find_one_None_iff)
  then obtain u where u: "find_one (s, ''user'') ?f = Some u" by auto
  from find_one_SomeD[OF u] have "u \<noteq> []" by auto
  then obtain x xs where "u = x # xs" by (cases u) auto
  with u show ?thesis
    by (simp add: signup_def collection_def is_client_error_def)
qed

theorem signup_conflict_witness:
  "signup len_hash (\<lambda>_. True) (Some empty_store) alice =
     (Some one_user, Inr (VDict [(''id'', VStr ''0'')])) \<and>
   signup len_hash (\<lambda>_. True) (Some one_user) alice =
     (Some one_user, Inl (HTTPException 400 ''Email already registered''))"
proof
  show "signup len_hash (\<lambda>_. True) (Some empty_store) alice =
      (Some one_user, Inr (VDict [(''id'', VStr ''0'')]))"
    by (simp add: signup_def collection_def find_one_def find_def empty_store_def alice_def
        User_init_def User_dump_def create_document_def len_hash_def str_int_def str_nat.simps
        digit_char_def one_user_def alice_doc_def)
  have "alice_doc \<in> set (colls one_user ''user'')"
    by (simp add: one_user_def)
  moreover have "map_of alice_doc ''email'' = Some (VStr (su_email alice))"
    by (simp add: alice_doc_def alice_def)
  ultimately show "signup len_hash (\<lambda>_. True) (Some one_user) alice =
     (Some one_user, Inl (HTTPException 400 ''Email already registered''))"
    using signup_conflict [where d = alice_doc and s = one_user and p = alice
        and hash = len_hash and email_ok = "\<lambda>_. True"]
    by simp
qed

text \<open>
  C5. \<^verbatim>\<open>login\<close>: when no record of the user collection carries the email, the answer
  is the 404 response "User not found"; when the record found for the email stores a
  \<^verbatim>\<open>password_hash\<close> other than the value derived from the password, the answer is the
  401 response "Invalid credentials"; both are client errors and leave the store as it
  was. Whenever \<^verbatim>\<open>login\<close> ends with an error, the store is unchanged: the session token
  is written on success only.
\<close>

theorem login_failures:
  "((\<forall>d\<in>set (colls s ''user''). map_of d ''email'' \<noteq> Some (VStr (li_email p))) \<longrightarrow>
      login hash (Some s) p = (Some s, Inl (HTTPException 404 ''User not found''))) \<and>
   (find_one (s, ''user'') [(''email'', Eq (VStr (li_email p)))] = Some u \<and>
    dict_get u ''password_hash'' \<noteq> VStr (''sha1::'' @ str_int (abs (hash (li_password p)))) \<longrightarrow>
      login hash (Some s) p = (Some s, Inl (HTTPException 401 ''Invalid credentials''))) \<and>
   is_client_error (HTTPException 404 ''User not found'') \<and>
   is_client_error (HTTPException 401 ''Invalid credentials'') \<and>
   (\<forall>e. snd (login hash db p) = Inl e \<longrightarrow> fst (login hash db p) = db)"
proof (intro conjI impI allI)
  assume "\<forall>d\<in>set (colls s ''user''). map_of d ''email'' \<noteq> Some (VStr (li_email p))"
  then have "find_one (s, ''user'') [(''email'', Eq (VStr (li_email p)))] = None"
    by (simp add: find_one_None_iff)
  then show "login hash (Some s) p = (Some s, Inl (HTTPException 404 ''User not found''))"
    by (simp add: login_def collection_def)
next
  assume a: "find_one (s, ''user'') [(''email'', Eq (VStr (li_email p)))] = Some u \<and>
    dict_get u ''password_hash'' \<noteq> VStr (''sha1::'' @ str_int (abs (hash (li_password p))))"
  then have "matches [(''email'', Eq (VStr (li_email p)))] u"
    using find_one_SomeD by blast
  then have "u \<noteq> []" by auto
  then obtain x xs where "u = x # xs" by (cases u) auto
  with a show "login hash (Some s) p = (Some s, Inl (HTTPException 401 ''Invalid credentials''))"
    by (simp add: login_def collection_def)
next
  show "is_client_error (HTTPException 404 ''User not found'')"
    by (simp add: is_client_error_def)
next
  show "is_client_error (HTTPException 401 ''Invalid credentials'')"
    by (simp add: is_client_error_def)
next
  fix e assume "snd (login hash db p) = Inl e"
  then show "fst (login hash db p) = db"
    by (auto simp: login_def Let_def split: sum.splits option.splits list.splits if_splits)
qed

theorem login_failures_witness:
  "login len_hash (Some one_user) \<lparr>li_email = ''bob@example.org'', li_password = ''secret''\<rparr> =
     (Some one_user, Inl (HTTPException 404 ''User not found'')) \<and>
   login len_hash (Some one_user) \<lparr>li_email = ''alice@example.org'', li_password = ''guess''\<rparr> =
     (Some one_user, Inl (HTTPException 401 ''Invalid credentials'')) \<and>
   fst (login len_hash None \<lparr>li_email = ''bob@example.org'', li_password = ''secret''\<rparr>) = None \<and>
   fst (login len_hash (Some one_user)
          \<lparr>li_email = ''alice@example.org'', li_password = ''secret''\<rparr>) \<noteq> Some one_user"
proof (intro conjI)
  let ?bob = "\<lparr>li_email = ''bob@example.org'', li_password = ''secret''\<rparr>"
  let ?bad = "\<lparr>li_email = ''alice@example.org'', li_password = ''guess''\<rparr>"
  let ?good = "\<lparr>li_email = ''alice@example.org'', li_password = ''secret''\<rparr>"
  have "\<forall>d\<in>set (colls one_user ''user''). map_of d ''email'' \<noteq> Some (VStr (li_email ?bob))"
    by (simp add: one_user_def alice_doc_def)
  then show "login len_hash (Some one_user) ?bob =
      (Some one_user, Inl (HTTPException 404 ''User not found''))"
    using login_failures [where s = one_user and p = "?bob" and hash = len_hash] by blast
  have "find_one (one_user, ''user'') [(''email'', Eq (VStr (li_email ?bad)))] = Some alice_doc"
    by (simp add: find_one_def find_def one_user_def alice_doc_def)
  moreover have "dict_get alice_doc ''password_hash'' \<noteq>
      VStr (''sha1::'' @ str_int (abs (len_hash (li_password ?bad))))"
    by (simp add: dict_get_def alice_doc_def len_hash_def str_int_def str_nat.simps digit_char_def)
  ultimately show "login len_hash (Some one_user) ?bad =
      (Some one_user, Inl (HTTPException 401 ''Invalid credentials''))"
    using login_failures [where s = one_user and p = "?bad" and u = alice_doc and hash = len_hash]
    by blast
  have "snd (login len_hash None ?bob) = Inl TypeError"
    by (simp add: login_def collection_def)
  then show "fst (login len_hash None ?bob) = None"
    using login_failures [where db = None and p = "?bob" and hash = len_hash] by blast
  have "map_of (hd (colls (the (fst (login len_hash (Some one_user) ?good))) ''user''))
          ''session_token'' = Some (VStr ''tok_23'')"
    by (simp add: login_def collection_def find_one_def find_def one_user_def alice_doc_def
        dict_get_def dict_get_default_def len_hash_def str_int_def str_nat.simps digit_char_def
        update_one_def Let_def)
  then show "fst (login len_hash (Some one_user) ?good) \<noteq> Some one_user"
    by (auto simp: one_user_def alice_doc_def)
qed

section \<open>Squads and feedback\<close>

text \<open>
  C3. With a store available, \<^verbatim>\<open>create_squad\<close> succeeds and appends one record to the
  squad collection: the submitted squad with the member list \<open>ms\<close>, where \<open>ms\<close>
  contains the owner: it is the submitted list when that already names the owner, and
  the submitted list followed by the owner otherwise. A squad of owner "u1" with no
  members is stored with the members ["u1"].
\<close>

theorem create_squad_owner_member:
  "\<exists>s' i ms. create_squad (Some s) q = (Some s', Inr (VDict [(''id'', VStr i)])) \<and>
     colls s' ''squad'' =
       colls s ''squad'' @ [(''_id'', VOid (next_id s)) # Squad_dump (q\<lparr>members := ms\<rparr>)] \<and>
     owner_id q \<in> set ms \<and>
     ms = (if owner_id q \<in> set (members q) then members q else members q @ [owner_id q])"
  by (simp add: create_squad_def create_document_def id_response_def)

theorem create_squad_owner_member_witness:
  "\<exists>s' i. create_squad (Some empty_store) morning_crew = (Some s', Inr (VDict [(''id'', VStr i)])) \<and>
     colls s' ''squad'' =
       [[(''_id'', VOid 0), (''name'', VStr ''Morning Crew''), (''description'', VNone),
         (''owner_id'', VStr ''u1''), (''members'', VList [VStr ''u1''])]]"
  using create_squad_owner_member [of empty_store morning_crew]
  by (auto simp: empty_store_def morning_crew_def Squad_dump_def opt_str_def)

text \<open>
  C8. A feedback body whose rating is present and below 1 or above 5 is rejected when
  the \<^verbatim>\<open>Feedback\<close> is built: \<^verbatim>\<open>POST /feedback\<close> ends with the framework's
  validation error on the field \<^verbatim>\<open>rating\<close>, a client error, the handler is not called
  and the store is unchanged.
\<close>

theorem feedback_rating_rejected:
  assumes "r < 1 \<or> 5 < r"
  shows "post_feedback db uid msg (Some r) = (db, Inl (RequestValidationError ''rating'')) \<and>
         is_client_error (RequestValidationError ''rating'')"
  using assms by (auto simp: post_feedback_def Feedback_init_def is_client_error_def)

theorem feedback_rating_rejected_witness:
  "((6::int) < 1 \<or> 5 < (6::int)) \<and>
   post_feedback (Some empty_store) None ''nice'' (Some 6) =
     (Some empty_store, Inl (RequestValidationError ''rating''))"
  using feedback_rating_rejected [of 6 "Some empty_store" None "''nice''"] by simp

section \<open>The library\<close>

lemma lower_Nil [simp]: "lower [] = []"
  by (simp add: lower_def)

lemma lower_Nil_iff [simp]: "lower q = [] \<longleftrightarrow> q = []"
  by (simp add: lower_def)

lemma matches_library_filt:
  "matches (set_if tier ''tier'' (set_if category ''category'' [])) d \<longleftrightarrow>
     field_ok category ''category'' d \<and> field_ok tier ''tier'' d"
  by (auto simp: set_if_def matches_def field_ok_def split: option.splits)

lemma search_hit_error: "search_hit ql i = Inl e \<Longrightarrow> e = AttributeError"
  by (auto simp: search_hit_def py_lower_def split: sum.splits val.splits if_splits)

lemma search_error: "search ql items = Inl e \<Longrightarrow> e = AttributeError"
  by (induction items arbitrary: e) (auto split: sum.splits dest: search_hit_error)

lemma search_raises:
  "i \<in> set items \<Longrightarrow> search_hit ql i = Inl e \<Longrightarrow> search ql items = Inl AttributeError"
proof (induction items)
  case Nil
  then show ?case by simp
next
  case (Cons a items)
  show ?case
  proof (cases "search_hit ql a")
    case (Inl e')
    then show ?thesis using search_hit_error by auto
  next
    case (Inr b)
    with Cons have "search ql items = Inl AttributeError" by auto
    with Inr show ?thesis by simp
  qed
qed

lemma search_hit_spec:
  assumes "q \<noteq> []" and "search_hit (lower q) d = Inr b"
  shows "b = (contains_ci q (map_of d ''title'') \<or> contains_ci q (map_of d ''description''))"
  using assms
  by (auto simp: search_hit_def py_lower_def dict_get_default_def contains_ci_def
      split: sum.splits val.splits option.splits if_splits)

lemma search_spec:
  assumes "q \<noteq> []"
  shows "search (lower q) items = Inr r \<Longrightarrow>
    r = filter (\<lambda>d. contains_ci q (map_of d ''title'') \<or> contains_ci q (map_of d ''description'')) items"
proof (induction items arbitrary: r)
  case Nil
  then show ?case by simp
next
  case (Cons a items)
  then show ?case
    using search_hit_spec [OF assms, of a]
    by (auto split: sum.splits if_splits)
qed

lemma search_hit_total:
  assumes "text_or_absent (map_of d ''title'')" and "text_or_absent (map_of d ''description'')"
  shows "\<exists>b. search_hit ql d = Inr b"
  using assms
  by (auto simp: search_hit_def py_lower_def dict_get_default_def text_or_absent_def
      split: option.splits val.splits)

lemma search_total:
  "(\<forall>d\<in>set items. \<exists>b. search_hit ql d = Inr b) \<Longrightarrow> \<exists>r. search ql items = Inr r"
  by (induction items) auto

text \<open>The example library, evaluated.\<close>

lemma lower_breathing_101: "lower ''Breathing 101'' = ''breathing 101''"
  by code_simp

lemma lower_breathing: "lower ''breathing'' = ''breathing''"
  by code_simp

lemma lower_yoga: "lower ''yoga'' = ''yoga''" and lower_YOGA: "lower ''YOGA'' = ''yoga''"
  by code_simp+

lemma lower_gentle: "lower ''Gentle Yoga for mornings'' = ''gentle yoga for mornings''"
  by code_simp

lemma lower_sunrise: "lower ''Sunrise Flow'' = ''sunrise flow''"
  by code_simp

lemma lower_stretch: "lower ''Morning Stretch'' = ''morning stretch''"
  by code_simp

lemma lower_latin1:
  "lower [CHR 0xC9, CHR 0xD7, CHR 0xDF, CHR ''Z'', CHR ''1''] = [CHR 0xE9, CHR 0xD7, CHR 0xDF, CHR ''z'', CHR ''1'']"
  by code_simp

lemma library_1_all: "find (library_1, ''contentitem'') [] = [(''_id'', VOid 0) # breathing_doc]"
  by (simp add: find_def library_1_def matches_def)

lemma breathing_hit: "search_hit ''breathing'' ((''_id'', VOid 0) # breathing_doc) = Inr True"
  by (simp add: search_hit_def dict_get_default_def py_lower_def breathing_doc_def lower_breathing_101)

lemma library_1_breathing:
  "list_content (Some library_1) None (Some ''breathing'') None = Inr [breathing_doc]"
  by (simp add: list_content_def get_documents_def set_if_def library_1_all breathing_hit
      lower_breathing) (simp add: breathing_doc_def)

lemma lower_sketch: "lower ''Sketching'' = ''sketching''" and lower_pencil: "lower ''Pencil basics'' = ''pencil basics''"
  by code_simp+

lemma library_2_spec: "library_spec library_2 None ''YOGA'' (Some ''free'') = [yoga_doc]"
  by (simp add: library_spec_def library_2_def yoga_doc_def sketch_doc_def field_ok_def
      contains_ci_def lower_YOGA lower_gentle lower_sunrise lower_sketch lower_pencil)

text \<open>
  A description that is missing altogether takes the default \<^verbatim>\<open>""\<close> and raises
  nothing; only a null one does.
\<close>

lemma search_hit_absent_description:
  assumes "map_of i ''title'' = Some (VStr t)" and "map_of i ''description'' = None"
  shows "search_hit ql i = Inr (str_in ql (lower t) \<or> ql = [])"
  using assms by (simp add: search_hit_def dict_get_default_def py_lower_def)

text \<open>
  C9. The library search is not total. With a non-empty search term, when the items
  that pass the category and tier filters include one whose title is a string that does
  not contain the lower-cased term and whose \<^verbatim>\<open>description\<close> is null,
  \<^verbatim>\<open>list_content\<close> ends in the unhandled \<^verbatim>\<open>AttributeError\<close> of lower-casing the
  null description instead of returning a list.
\<close>

theorem library_search_raises:
  assumes "q \<noteq> []"
    and "i \<in> set (colls s ''contentitem'')"
    and "field_ok category ''category'' i" and "field_ok tier ''tier'' i"
    and "map_of i ''title'' = Some (VStr t)" and "\<not> str_in (lower q) (lower t)"
    and "map_of i ''description'' = Some VNone"
  shows "list_content (Some s) category (Some q) tier = Inl AttributeError"
proof -
  let ?f = "set_if tier ''tier'' (set_if category ''category'' [])"
  have "i \<in> set (find (s, ''contentitem'') ?f)"
    using assms by (simp add: find_def matches_library_filt)
  moreover have "search_hit (lower q) i = Inl AttributeError"
    using assms by (simp add: search_hit_def dict_get_default_def py_lower_def)
  ultimately have "search (lower q) (find (s, ''contentitem'') ?f) = Inl AttributeError"
    by (rule search_raises)
  then show ?thesis
    using assms(1) by (simp add: list_content_def get_documents_def)
qed

theorem library_search_raises_witness:
  "fst (add_content (Some empty_store) breathing_101) = Some library_1 \<and>
   list_content (Some library_1) None (Some ''yoga'') None = Inl AttributeError"
proof
  show "fst (add_content (Some empty_store) breathing_101) = Some library_1"
    by (simp add: add_content_def create_document_def id_response_def empty_store_def
        library_1_def breathing_101_def breathing_doc_def ContentItem_dump_def opt_str_def opt_int_def)
  have "(''_id'', VOid 0) # breathing_doc \<in> set (colls library_1 ''contentitem'')"
    by (simp add: library_1_def)
  moreover have "map_of ((''_id'', VOid 0) # breathing_doc) ''title'' = Some (VStr ''Breathing 101'')"
    by (simp add: breathing_doc_def)
  moreover have "\<not> str_in (lower ''yoga'') (lower ''Breathing 101'')"
    by (simp add: lower_yoga lower_breathing_101)
  moreover have "map_of ((''_id'', VOid 0) # breathing_doc) ''description'' = Some VNone"
    by (simp add: breathing_doc_def)
  moreover have "''yoga'' \<noteq> []" by simp
  ultimately show "list_content (Some library_1) None (Some ''yoga'') None = Inl AttributeError"
    using library_search_raises [where q = "''yoga''" and s = library_1 and category = None
        and tier = None and i = "(''_id'', VOid 0) # breathing_doc" and t = "''Breathing 101''"]
    by (simp add: field_ok_def)
qed

text \<open>
  What \<^verbatim>\<open>list_content\<close> does with a non-empty search term, in full: when every record
  that passes the category and tier filters is searchable, it returns the list the
  specification words; otherwise it ends in \<^verbatim>\<open>AttributeError\<close>.
\<close>

lemma search_hit_defined:
  assumes "q \<noteq> []"
  shows "(\<exists>b. search_hit (lower q) d = Inr b) \<longleftrightarrow> searchable q d"
  using assms
  by (auto simp: search_hit_def py_lower_def dict_get_default_def searchable_def
      text_or_absent_def contains_ci_def split: option.splits val.splits)

lemma search_defined:
  "(\<exists>r. search ql items = Inr r) \<longleftrightarrow> (\<forall>d\<in>set items. \<exists>b. search_hit ql d = Inr b)"
proof
  assume "\<exists>r. search ql items = Inr r"
  then show "\<forall>d\<in>set items. \<exists>b. search_hit ql d = Inr b"
  proof (induction items)
    case Nil
    then show ?case by simp
  next
    case (Cons a items)
    then show ?case by (auto split: sum.splits)
  qed
next
  assume "\<forall>d\<in>set items. \<exists>b. search_hit ql d = Inr b"
  then show "\<exists>r. search ql items = Inr r" by (rule search_total)
qed

lemma list_content_search:
  assumes "q \<noteq> []"
  shows "list_content (Some s) category (Some q) tier =
     (if \<forall>d\<in>set (filter (\<lambda>d. field_ok category ''category'' d \<and> field_ok tier ''tier'' d)
                      (colls s ''contentitem'')). searchable q d
      then Inr (library_spec s category q tier)
      else Inl AttributeError)"
proof -
  let ?f = "set_if tier ''tier'' (set_if category ''category'' [])"
  let ?hit = "\<lambda>d. contains_ci q (map_of d ''title'') \<or> contains_ci q (map_of d ''description'')"
  let ?found = "find (s, ''contentitem'') ?f"
  have found: "?found =
      filter (\<lambda>d. field_ok category ''category'' d \<and> field_ok tier ''tier'' d)
        (colls s ''contentitem'')"
  proof -
    have "matches ?f = (\<lambda>d. field_ok category ''category'' d \<and> field_ok tier ''tier'' d)"
      by (rule ext) (rule matches_library_filt)
    then show ?thesis by (simp add: find_def)
  qed
  have spec: "library_spec s category q tier = map (AList.delete ''_id'') (filter ?hit ?found)"
    by (simp add: library_spec_def found conj_commute conj_left_commute cong: conj_cong)
  have lc: "list_content (Some s) category (Some q) tier =
      (case search (lower q) ?found of
         Inl e \<Rightarrow> Inl e | Inr r \<Rightarrow> Inr (map (AList.delete ''_id'') r))"
    using assms by (simp add: list_content_def get_documents_def)
  have defined: "(\<exists>r. search (lower q) ?found = Inr r) \<longleftrightarrow> (\<forall>d\<in>set ?found. searchable q d)"
    by (simp add: search_defined search_hit_defined [OF assms])
  show ?thesis
  proof (cases "search (lower q) ?found")
    case (Inl e)
    then have "e = AttributeError" by (rule search_error)
    moreover from Inl defined have "\<not> (\<forall>d\<in>set ?found. searchable q d)" by auto
    ultimately show ?thesis
      using Inl unfolding lc found by simp
  next
    case (Inr r)
    from search_spec [OF assms Inr] have "r = filter ?hit ?found" .
    moreover from Inr defined have "\<forall>d\<in>set ?found. searchable q d" by auto
    ultimately show ?thesis
      using Inr spec unfolding lc found by simp
  qed
qed

text \<open>
  The scenario of the specification: after creating the item "Breathing 101" alone, the
  search for "breathing" returns it and the category "art" does not; and a search through
  described items, in another letter case.
\<close>

lemma library_scenario:
  "list_content (Some library_1) None (Some ''breathing'') None = Inr [breathing_doc] \<and>
   library_spec library_1 None ''breathing'' None = [breathing_doc] \<and>
   list_content (Some library_1) (Some ''art'') None None = Inr [] \<and>
   list_content (Some library_2) None (Some ''YOGA'') (Some ''free'') = Inr [yoga_doc]"
proof (intro conjI)
  show "list_content (Some library_1) None (Some ''breathing'') None = Inr [breathing_doc]"
    by (rule library_1_breathing)
  show "library_spec library_1 None ''breathing'' None = [breathing_doc]"
    by (simp add: library_spec_def library_1_def breathing_doc_def field_ok_def contains_ci_def
        lower_breathing lower_breathing_101)
  have "find (library_1, ''contentitem'') [(''category'', Eq (VStr ''art''))] = []"
    by (simp add: find_def library_1_def breathing_doc_def)
  then show "list_content (Some library_1) (Some ''art'') None None = Inr []"
    by (simp add: list_content_def get_documents_def set_if_def)
  have c: "\<forall>d\<in>set (filter (\<lambda>d. field_ok None ''category'' d \<and> field_ok (Some ''free'') ''tier'' d)
                  (colls library_2 ''contentitem'')). searchable ''YOGA'' d"
    by (simp add: library_2_def yoga_doc_def sketch_doc_def field_ok_def searchable_def
        text_or_absent_def)
  have "''YOGA'' \<noteq> []" by simp
  note eq = list_content_search [OF this, of library_2 None "Some ''free''"]
  have "list_content (Some library_2) None (Some ''YOGA'') (Some ''free'') =
      Inr (library_spec library_2 None ''YOGA'' (Some ''free''))"
    by (rule trans [OF eq if_P [OF c]])
  then show "list_content (Some library_2) None (Some ''YOGA'') (Some ''free'') = Inr [yoga_doc]"
    by (simp only: library_2_spec)
qed

text \<open>
  C7 fails on the code. The claim gives, for every request with a search term, the list
  of the stored items that pass the filters and contain the term in title or
  description. On the store that holds only the specification's own item
  "Breathing 101", created without a description and so stored with a null one, the
  search for "yoga" should return the empty list and ends in \<^verbatim>\<open>AttributeError\<close>. On
  the store that holds this item and a second one without a description, the search for
  "breathing" should return "Breathing 101" and ends in \<^verbatim>\<open>AttributeError\<close> as well.
  \<^verbatim>\<open>i.get("description", "")\<close> provides for a missing description, not for the null
  one that \<^verbatim>\<open>ContentItem\<close> stores by default.
\<close>

theorem library_search_null_description:
  "fst (add_content (Some empty_store) breathing_101) = Some library_1 \<and>
   library_spec library_1 None ''yoga'' None = [] \<and>
   list_content (Some library_1) None (Some ''yoga'') None = Inl AttributeError \<and>
   library_spec library_3 None ''breathing'' None = [breathing_doc] \<and>
   list_content (Some library_3) None (Some ''breathing'') None = Inl AttributeError"
proof (intro conjI)
  show "fst (add_content (Some empty_store) breathing_101) = Some library_1"
    by (simp add: add_content_def create_document_def id_response_def empty_store_def
        library_1_def breathing_101_def breathing_doc_def ContentItem_dump_def opt_str_def opt_int_def)
  show "library_spec library_1 None ''yoga'' None = []"
    by (simp add: library_spec_def library_1_def breathing_doc_def field_ok_def contains_ci_def
        lower_yoga lower_breathing_101)
  have c1: "\<not> (\<forall>d\<in>set (filter (\<lambda>d. field_ok None ''category'' d \<and> field_ok None ''tier'' d)
                  (colls library_1 ''contentitem'')). searchable ''yoga'' d)"
    by (simp add: library_1_def breathing_doc_def field_ok_def searchable_def text_or_absent_def
        contains_ci_def lower_yoga lower_breathing_101)
  have "''yoga'' \<noteq> []" by simp
  note eq1 = list_content_search [OF this, of library_1 None None]
  show "list_content (Some library_1) None (Some ''yoga'') None = Inl AttributeError"
    by (rule trans [OF eq1 if_not_P [OF c1]])
  show "library_spec library_3 None ''breathing'' None = [breathing_doc]"
    by (simp add: library_spec_def library_3_def breathing_doc_def stretch_doc_def field_ok_def
        contains_ci_def lower_breathing lower_breathing_101 lower_stretch)
  have c3: "\<not> (\<forall>d\<in>set (filter (\<lambda>d. field_ok None ''category'' d \<and> field_ok None ''tier'' d)
                  (colls library_3 ''contentitem'')). searchable ''breathing'' d)"
    by (simp add: library_3_def breathing_doc_def stretch_doc_def field_ok_def searchable_def
        text_or_absent_def contains_ci_def lower_breathing lower_breathing_101 lower_stretch)
  have "''breathing'' \<noteq> []" by simp
  note eq3 = list_content_search [OF this, of library_3 None None]
  show "list_content (Some library_3) None (Some ''breathing'') None = Inl AttributeError"
    by (rule trans [OF eq3 if_not_P [OF c3]])
qed

section \<open>Responses never show the internal identifier\<close>

text \<open>
  The invariant holds of the empty store and is kept by every write: each create handler
  writes through \<^verbatim>\<open>create_document\<close>, and \<^verbatim>\<open>login\<close> sets one more field of a record.
\<close>

lemma wf_empty_store: "wf_store empty_store"
  by (simp add: wf_store_def empty_store_def)

lemma wf_create_document:
  assumes "wf_store s" and "create_document (Some s) name d = (Some s', r)"
  shows "wf_store s'"
  using assms by (auto simp: wf_store_def create_document_def has_oid_def)

lemma has_oid_update: "k \<noteq> ''_id'' \<Longrightarrow> has_oid (AList.update k v d) = has_oid d"
  by (simp add: has_oid_def update_conv')

lemma wf_update_first:
  "list_all has_oid ds \<Longrightarrow> (\<And>d. has_oid d \<Longrightarrow> has_oid (g d)) \<Longrightarrow> list_all has_oid (update_first p g ds)"
  by (induction ds) auto

lemma wf_login:
  assumes "wf_store s" and "login hash (Some s) p = (Some s', r)"
  shows "wf_store s'"
proof (cases r)
  case (Inl e)
  then have "fst (login hash (Some s) p) = Some s"
    using assms(2) by (auto simp: login_def Let_def split: sum.splits option.splits list.splits if_splits)
  with assms show ?thesis by simp
next
  case (Inr v)
  with assms(2) obtain f kvs where s': "s' = update_one (s, ''user'') f [(''session_token'', kvs)]"
    by (auto simp: login_def Let_def collection_def split: sum.splits option.splits list.splits if_splits)
  show ?thesis
    unfolding s' using assms(1)
    by (auto simp: wf_store_def update_one_def has_oid_update intro!: wf_update_first)
qed

lemma get_documents_subset:
  "get_documents (Some s) name f lim = Inr ds \<Longrightarrow> set ds \<subseteq> set (colls s name)"
  by (auto simp: get_documents_def find_def split: option.splits dest: in_set_takeD)

lemma delete_no_internal_id: "no_internal_id (AList.delete ''_id'' d)"
  by (simp add: no_internal_id_def delete_notin_dom)

lemma with_id_shape:
  assumes "has_oid d"
  shows "no_internal_id (with_id d) \<and> has_string_id (with_id d)"
proof -
  from assms obtain n where n: "map_of d ''_id'' = Some (VOid n)"
    by (auto simp: has_oid_def split: option.splits val.splits)
  then have w: "with_id d = AList.update ''id'' (VStr (str_nat n)) (AList.delete ''_id'' d)"
    by (simp add: with_id_def dict_get_def)
  show ?thesis
    unfolding w using delete_notin_dom [of "''_id''" d]
    by (auto simp: no_internal_id_def has_string_id_def update_conv' dom_update)
qed

lemma list_content_shape:
  "list_content db c q t = Inr docs \<Longrightarrow> \<exists>xs. docs = map (AList.delete ''_id'') xs"
  by (auto simp: list_content_def Let_def split: sum.splits)

lemma list_programs_shape:
  "list_programs db t = Inr docs \<Longrightarrow> \<exists>xs. docs = map (AList.delete ''_id'') xs"
  by (auto simp: list_programs_def Let_def split: sum.splits)

lemma with_id_all:
  assumes "wf_store s" and "get_documents (Some s) name f lim = Inr xs"
  shows "\<forall>d\<in>set (map with_id xs). no_internal_id d \<and> has_string_id d"
proof -
  have "\<forall>x\<in>set xs. has_oid x"
    using assms get_documents_subset [OF assms(2)]
    by (auto simp: wf_store_def list_all_iff)
  then show ?thesis using with_id_shape by auto
qed

lemma login_success_shape:
  assumes "login hash db p = (db', Inr r)"
  shows "\<exists>tok i n e pl.
     r = VDict [(''token'', VStr tok),
                (''user'', VDict [(''id'', VStr i), (''name'', n), (''email'', e), (''plan'', pl)])]"
  using assms
  apply (simp add: login_def Let_def split: sum.splits option.splits list.splits if_splits)
  apply (intro exI, erule sym)+
  done

lemma wf_id_response:
  assumes "wf_store s" and "fst (id_response (create_document (Some s) name d)) = Some s'"
  shows "wf_store s'"
  using assms by (auto simp: wf_store_def create_document_def id_response_def has_oid_def)

lemma wf_signup:
  assumes "wf_store s" and "fst (signup hash email_ok (Some s) p) = Some s'"
  shows "wf_store s'"
  using assms
  by (auto simp: signup_def collection_def wf_store_def create_document_def has_oid_def
      split: option.splits list.splits sum.splits)

text \<open>
  C6. On a store in which every record carries its store-assigned identifier, every
  successful response of a read endpoint is free of the key \<^verbatim>\<open>_id\<close>: the records of
  \<^verbatim>\<open>GET /library\<close> and \<^verbatim>\<open>GET /programs\<close> have it removed, the records of
  \<^verbatim>\<open>GET /tasks\<close>, \<^verbatim>\<open>/checkins\<close>, \<^verbatim>\<open>/squads\<close>, \<^verbatim>\<open>/posts\<close> and \<^verbatim>\<open>/enrollments\<close>
  carry a string \<^verbatim>\<open>id\<close> in its place, and the user object of a successful login has
  exactly the keys \<^verbatim>\<open>id\<close>, \<^verbatim>\<open>name\<close>, \<^verbatim>\<open>email\<close>, \<^verbatim>\<open>plan\<close>, with a string \<^verbatim>\<open>id\<close>.
\<close>

theorem responses_hide_internal_id:
  assumes "wf_store s"
  shows "(list_content (Some s) c q t = Inr docs \<longrightarrow> (\<forall>d\<in>set docs. no_internal_id d)) \<and>
         (list_programs (Some s) t = Inr docs \<longrightarrow> (\<forall>d\<in>set docs. no_internal_id d)) \<and>
         (list_tasks (Some s) uid week = Inr docs \<longrightarrow>
            (\<forall>d\<in>set docs. no_internal_id d \<and> has_string_id d)) \<and>
         (list_checkins (Some s) uid limit = Inr docs \<longrightarrow>
            (\<forall>d\<in>set docs. no_internal_id d \<and> has_string_id d)) \<and>
         (list_squads (Some s) member_id = Inr docs \<longrightarrow>
            (\<forall>d\<in>set docs. no_internal_id d \<and> has_string_id d)) \<and>
         (list_posts (Some s) squad_id user_id limit = Inr docs \<longrightarrow>
            (\<forall>d\<in>set docs. no_internal_id d \<and> has_string_id d)) \<and>
         (list_enrollments (Some s) uid = Inr docs \<longrightarrow>
            (\<forall>d\<in>set docs. no_internal_id d \<and> has_string_id d)) \<and>
         (login hash (Some s) p = (db', Inr r) \<longrightarrow>
            (\<exists>tok u. r = VDict [(''token'', VStr tok), (''user'', VDict u)] \<and>
               map fst u = [''id'', ''name'', ''email'', ''plan''] \<and> has_string_id u))"
proof (intro conjI impI)
  assume "list_content (Some s) c q t = Inr docs"
  then show "\<forall>d\<in>set docs. no_internal_id d"
    using list_content_shape delete_no_internal_id by fastforce
next
  assume "list_programs (Some s) t = Inr docs"
  then show "\<forall>d\<in>set docs. no_internal_id d"
    using list_programs_shape delete_no_internal_id by fastforce
next
  assume "list_tasks (Some s) uid week = Inr docs"
  then obtain f xs where "get_documents (Some s) ''task'' f None = Inr xs" "docs = map with_id xs"
    by (auto simp: list_tasks_def Let_def split: sum.splits)
  then show "\<forall>d\<in>set docs. no_internal_id d \<and> has_string_id d"
    using with_id_all [OF assms] by blast
next
  assume "list_checkins (Some s) uid limit = Inr docs"
  then obtain f l xs where "get_documents (Some s) ''checkin'' f l = Inr xs" "docs = map with_id xs"
    by (auto simp: list_checkins_def Let_def split: sum.splits)
  then show "\<forall>d\<in>set docs. no_internal_id d \<and> has_string_id d"
    using with_id_all [OF assms] by blast
next
  assume "list_squads (Some s) member_id = Inr docs"
  then obtain f xs where "get_documents (Some s) ''squad'' f None = Inr xs" "docs = map with_id xs"
    by (auto simp: list_squads_def Let_def split: sum.splits)
  then show "\<forall>d\<in>set docs. no_internal_id d \<and> has_string_id d"
    using with_id_all [OF assms] by blast
next
  assume "list_posts (Some s) squad_id user_id limit = Inr docs"
  then obtain f l xs where "get_documents (Some s) ''post'' f l = Inr xs" "docs = map with_id xs"
    by (auto simp: list_posts_def Let_def split: sum.splits)
  then show "\<forall>d\<in>set docs. no_internal_id d \<and> has_string_id d"
    using with_id_all [OF assms] by blast
next
  assume "list_enrollments (Some s) uid = Inr docs"
  then obtain f xs where "get_documents (Some s) ''enrollment'' f None = Inr xs" "docs = map with_id xs"
    by (auto simp: list_enrollments_def Let_def split: sum.splits)
  then show "\<forall>d\<in>set docs. no_internal_id d \<and> has_string_id d"
    using with_id_all [OF assms] by blast
next
  assume "login hash (Some s) p = (db', Inr r)"
  from login_success_shape [OF this]
  show "\<exists>tok u. r = VDict [(''token'', VStr tok), (''user'', VDict u)] \<and>
               map fst u = [''id'', ''name'', ''email'', ''plan''] \<and> has_string_id u"
    by (elim exE) (simp add: has_string_id_def)
qed

lemma str_nat_digit: "n < 10 \<Longrightarrow> str_nat n = [digit_char n]"
  by (simp add: str_nat.simps)

lemma wf_demo_store: "wf_store demo_store"
  by (simp add: wf_store_def demo_store_def has_oid_def alice_doc_def)

lemma demo_tasks:
  "list_tasks (Some demo_store) ''u2'' None = Inr [Task_dump task_u2 @ [(''id'', VStr ''2'')]]"
  by (simp add: list_tasks_def get_documents_def find_def set_if_def demo_store_def
      Task_dump_def task_u2_def opt_str_def with_id_def dict_get_def str_nat_digit digit_char_def)

lemma demo_checkins:
  "list_checkins (Some demo_store) ''u2'' None = Inr [Checkin_dump checkin_u2 @ [(''id'', VStr ''3'')]]"
  by (simp add: list_checkins_def get_documents_def find_def demo_store_def
      Checkin_dump_def checkin_u2_def opt_str_def with_id_def dict_get_def str_nat_digit digit_char_def)

lemma demo_squads:
  "list_squads (Some demo_store) (Some ''u2'') = Inr [Squad_dump squad_u2 @ [(''id'', VStr ''4'')]]"
  by (simp add: list_squads_def get_documents_def find_def demo_store_def matches_def
      Squad_dump_def squad_u2_def opt_str_def with_id_def dict_get_def str_nat_digit digit_char_def)

lemma demo_posts:
  "list_posts (Some demo_store) None (Some ''u2'') None = Inr [Post_dump post_u2 @ [(''id'', VStr ''5'')]]"
  by (simp add: list_posts_def get_documents_def find_def set_if_def demo_store_def
      Post_dump_def post_u2_def opt_str_def with_id_def dict_get_def str_nat_digit digit_char_def)

lemma demo_programs:
  "list_programs (Some demo_store) None = Inr [Program_dump program_pro]"
  by (simp add: list_programs_def get_documents_def find_def set_if_def demo_store_def matches_def
      Program_dump_def program_pro_def opt_str_def)

lemma demo_enrollments:
  "list_enrollments (Some demo_store) ''u2'' = Inr [Enrollment_dump enrollment_u2 @ [(''id'', VStr ''7'')]]"
  by (simp add: list_enrollments_def get_documents_def find_def demo_store_def
      Enrollment_dump_def enrollment_u2_def with_id_def dict_get_def str_nat_digit digit_char_def)

lemma demo_library:
  "list_content (Some demo_store) None None None = Inr [breathing_doc]"
  by (simp add: list_content_def get_documents_def find_def set_if_def demo_store_def matches_def
      breathing_doc_def)

lemma demo_login:
  "snd (login len_hash (Some demo_store) \<lparr>li_email = ''alice@example.org'', li_password = ''secret''\<rparr>) =
     Inr (VDict [(''token'', VStr ''tok_23''),
                 (''user'', VDict [(''id'', VStr ''0''), (''name'', VStr ''Alice''),
                    (''email'', VStr ''alice@example.org''), (''plan'', VStr ''free'')])])"
  by (simp add: login_def collection_def find_one_def find_def demo_store_def alice_doc_def
      dict_get_def dict_get_default_def len_hash_def str_int_def str_nat.simps digit_char_def Let_def)

theorem responses_hide_internal_id_witness:
  "wf_store demo_store \<and>
   list_content (Some demo_store) None None None = Inr [breathing_doc] \<and>
   no_internal_id breathing_doc \<and>
   list_programs (Some demo_store) None = Inr [Program_dump program_pro] \<and>
   no_internal_id (Program_dump program_pro) \<and>
   list_tasks (Some demo_store) ''u2'' None = Inr [Task_dump task_u2 @ [(''id'', VStr ''2'')]] \<and>
   no_internal_id (Task_dump task_u2 @ [(''id'', VStr ''2'')]) \<and>
   has_string_id (Task_dump task_u2 @ [(''id'', VStr ''2'')]) \<and>
   no_internal_id (Checkin_dump checkin_u2 @ [(''id'', VStr ''3'')]) \<and>
   has_string_id (Checkin_dump checkin_u2 @ [(''id'', VStr ''3'')]) \<and>
   no_internal_id (Squad_dump squad_u2 @ [(''id'', VStr ''4'')]) \<and>
   has_string_id (Squad_dump squad_u2 @ [(''id'', VStr ''4'')]) \<and>
   no_internal_id (Post_dump post_u2 @ [(''id'', VStr ''5'')]) \<and>
   has_string_id (Post_dump post_u2 @ [(''id'', VStr ''5'')]) \<and>
   no_internal_id (Enrollment_dump enrollment_u2 @ [(''id'', VStr ''7'')]) \<and>
   has_string_id (Enrollment_dump enrollment_u2 @ [(''id'', VStr ''7'')]) \<and>
   has_string_id [(''id'', VStr ''0''), (''name'', VStr ''Alice''),
                  (''email'', VStr ''alice@example.org''), (''plan'', VStr ''free'')]"
proof -
  note T = responses_hide_internal_id [OF wf_demo_store]
  have content: "\<forall>d\<in>set [breathing_doc]. no_internal_id d"
    by (rule T [THEN conjunct1, THEN mp, OF demo_library])
  have programs: "\<forall>d\<in>set [Program_dump program_pro]. no_internal_id d"
    by (rule T [THEN conjunct2, THEN conjunct1, THEN mp, OF demo_programs])
  have tasks: "\<forall>d\<in>set [Task_dump task_u2 @ [(''id'', VStr ''2'')]]. no_internal_id d \<and> has_string_id d"
    by (rule T [THEN conjunct2, THEN conjunct2, THEN conjunct1, THEN mp, OF demo_tasks])
  have checkins: "\<forall>d\<in>set [Checkin_dump checkin_u2 @ [(''id'', VStr ''3'')]].
      no_internal_id d \<and> has_string_id d"
    by (rule T [THEN conjunct2, THEN conjunct2, THEN conjunct2, THEN conjunct1, THEN mp,
          OF demo_checkins])
  have squads: "\<forall>d\<in>set [Squad_dump squad_u2 @ [(''id'', VStr ''4'')]].
      no_internal_id d \<and> has_string_id d"
    by (rule T [THEN conjunct2, THEN conjunct2, THEN conjunct2, THEN conjunct2, THEN conjunct1,
          THEN mp, OF demo_squads])
  have posts: "\<forall>d\<in>set [Post_dump post_u2 @ [(''id'', VStr ''5'')]].
      no_internal_id d \<and> has_string_id d"
    by (rule T [THEN conjunct2, THEN conjunct2, THEN conjunct2, THEN conjunct2, THEN conjunct2,
          THEN conjunct1, THEN mp, OF demo_posts])
  have enrollments: "\<forall>d\<in>set [Enrollment_dump enrollment_u2 @ [(''id'', VStr ''7'')]].
      no_internal_id d \<and> has_string_id d"
    by (rule T [THEN conjunct2, THEN conjunct2, THEN conjunct2, THEN conjunct2, THEN conjunct2,
          THEN conjunct2, THEN conjunct1, THEN mp, OF demo_enrollments])
  let ?p = "\<lparr>li_email = ''alice@example.org'', li_password = ''secret''\<rparr>"
  have "login len_hash (Some demo_store) ?p =
      (fst (login len_hash (Some demo_store) ?p),
       Inr (VDict [(''token'', VStr ''tok_23''),
                 (''user'', VDict [(''id'', VStr ''0''), (''name'', VStr ''Alice''),
                    (''email'', VStr ''alice@example.org''), (''plan'', VStr ''free'')])]))"
    using demo_login by (simp add: prod_eq_iff)
  from T [THEN conjunct2, THEN conjunct2, THEN conjunct2, THEN conjunct2, THEN conjunct2,
          THEN conjunct2, THEN conjunct2, THEN mp, OF this]
  have user: "has_string_id [(''id'', VStr ''0''), (''name'', VStr ''Alice''),
                  (''email'', VStr ''alice@example.org''), (''plan'', VStr ''free'')]"
    by (elim exE) simp
  from content programs tasks checkins squads posts enrollments have
    "no_internal_id breathing_doc" "no_internal_id (Program_dump program_pro)"
    "no_internal_id (Task_dump task_u2 @ [(''id'', VStr ''2'')])"
    "has_string_id (Task_dump task_u2 @ [(''id'', VStr ''2'')])"
    "no_internal_id (Checkin_dump checkin_u2 @ [(''id'', VStr ''3'')])"
    "has_string_id (Checkin_dump checkin_u2 @ [(''id'', VStr ''3'')])"
    "no_internal_id (Squad_dump squad_u2 @ [(''id'', VStr ''4'')])"
    "has_string_id (Squad_dump squad_u2 @ [(''id'', VStr ''4'')])"
    "no_internal_id (Post_dump post_u2 @ [(''id'', VStr ''5'')])"
    "has_string_id (Post_dump post_u2 @ [(''id'', VStr ''5'')])"
    "no_internal_id (Enrollment_dump enrollment_u2 @ [(''id'', VStr ''7'')])"
    "has_string_id (Enrollment_dump enrollment_u2 @ [(''id'', VStr ''7'')])"
    by simp_all
  with wf_demo_store demo_library demo_programs demo_tasks user
  show ?thesis by (intro conjI)
qed

section \<open>Limits\<close>

lemma list_checkins_eq:
  "list_checkins (Some s) uid limit =
     Inr (map with_id (take (nat (case limit of None \<Rightarrow> 30 | Some n \<Rightarrow> n))
                         (find (s, ''checkin'') [(''user_id'', Eq (VStr uid))])))"
  by (simp add: list_checkins_def get_documents_def)

lemma list_posts_eq:
  "list_posts (Some s) sq u limit =
     Inr (map with_id (take (nat (case limit of None \<Rightarrow> 50 | Some n \<Rightarrow> n))
                         (find (s, ''post'') (set_if u ''user_id'' (set_if sq ''squad_id'' [])))))"
  by (simp add: list_posts_def get_documents_def)

lemma many_checkins_match:
  "find (many_checkins, ''checkin'') [(''user_id'', Eq (VStr ''u1''))] = map checkin_nr [0..<31]"
proof -
  have "\<forall>d\<in>set (map checkin_nr [0..<31]). matches [(''user_id'', Eq (VStr ''u1''))] d"
    by (simp add: checkin_nr_def Checkin_dump_def)
  then have "filter (matches [(''user_id'', Eq (VStr ''u1''))]) (map checkin_nr [0..<31]) =
      map checkin_nr [0..<31]"
    by (simp only: filter_True)
  then show ?thesis by (simp add: find_def many_checkins_def)
qed

lemma many_posts_match:
  "find (many_posts, ''post'') [(''user_id'', Eq (VStr ''u1''))] = map post_nr [0..<51]"
proof -
  have "\<forall>d\<in>set (map post_nr [0..<51]). matches [(''user_id'', Eq (VStr ''u1''))] d"
    by (simp add: post_nr_def Post_dump_def)
  then have "filter (matches [(''user_id'', Eq (VStr ''u1''))]) (map post_nr [0..<51]) =
      map post_nr [0..<51]"
    by (simp only: filter_True)
  then show ?thesis by (simp add: find_def many_posts_def)
qed

text \<open>
  C1, as stated, fails: with 31 check-ins of one user stored, \<^verbatim>\<open>GET /checkins\<close> without
  a limit returns 30 of the 31 matching records, and with 51 posts of one user stored,
  \<^verbatim>\<open>GET /posts\<close> without a limit returns 50 of the 51, since an omitted limit takes the
  default of the signature.
\<close>

theorem omitted_limit_counterexample:
  "length (find (many_checkins, ''checkin'') [(''user_id'', Eq (VStr ''u1''))]) = 31 \<and>
   map_sum id length (list_checkins (Some many_checkins) ''u1'' None) = Inr 30 \<and>
   length (find (many_posts, ''post'') [(''user_id'', Eq (VStr ''u1''))]) = 51 \<and>
   map_sum id length (list_posts (Some many_posts) None (Some ''u1'') None) = Inr 50"
  by (simp add: list_checkins_eq many_checkins_match list_posts_eq many_posts_match set_if_def)

text \<open>
  C1, amended. For \<^verbatim>\<open>GET /checkins\<close> and \<^verbatim>\<open>GET /posts\<close>, a call with limit N, N not
  negative, returns at most N records. A call that omits the limit behaves as the call
  with limit 30 (\<^verbatim>\<open>/checkins\<close>) or 50 (\<^verbatim>\<open>/posts\<close>), and so returns all matching
  records when there are at most 30, respectively 50, of them.
\<close>

theorem limit_bounds_listing:
  assumes "0 \<le> N"
  shows "(\<exists>docs. list_checkins (Some s) uid (Some N) = Inr docs \<and> int (length docs) \<le> N) \<and>
         (\<exists>docs. list_posts (Some s) sq u (Some N) = Inr docs \<and> int (length docs) \<le> N) \<and>
         list_checkins (Some s) uid None = list_checkins (Some s) uid (Some 30) \<and>
         list_posts (Some s) sq u None = list_posts (Some s) sq u (Some 50) \<and>
         (length (find (s, ''checkin'') [(''user_id'', Eq (VStr uid))]) \<le> 30 \<longrightarrow>
            list_checkins (Some s) uid None =
              Inr (map with_id (find (s, ''checkin'') [(''user_id'', Eq (VStr uid))]))) \<and>
         (length (find (s, ''post'') (set_if u ''user_id'' (set_if sq ''squad_id'' []))) \<le> 50 \<longrightarrow>
            list_posts (Some s) sq u None =
              Inr (map with_id (find (s, ''post'') (set_if u ''user_id'' (set_if sq ''squad_id'' [])))))"
  using assms by (auto simp: list_checkins_eq list_posts_eq min_def)

lemma many_checkins_5:
  "list_checkins (Some many_checkins) ''u1'' (Some 5) =
     Inr (map with_id (map checkin_nr [0..<5]))"
proof -
  have "take 5 (map checkin_nr [0..<31]) = map checkin_nr [0..<5]"
    by (simp add: take_map)
  then show ?thesis
    by (simp add: list_checkins_eq many_checkins_match)
qed

theorem limit_bounds_listing_witness:
  "(0::int) \<le> 5 \<and>
   list_checkins (Some many_checkins) ''u1'' (Some 5) = Inr (map with_id (map checkin_nr [0..<5])) \<and>
   (\<exists>docs. list_checkins (Some many_checkins) ''u1'' (Some 5) = Inr docs \<and> int (length docs) \<le> 5) \<and>
   list_checkins (Some demo_store) ''u2'' None =
     Inr (map with_id (find (demo_store, ''checkin'') [(''user_id'', Eq (VStr ''u2''))])) \<and>
   list_posts (Some demo_store) None (Some ''u2'') None =
     Inr (map with_id (find (demo_store, ''post'') [(''user_id'', Eq (VStr ''u2''))]))"
proof -
  have n: "(0::int) \<le> 5" by simp
  note T = limit_bounds_listing [OF n]
  have c: "length (find (demo_store, ''checkin'') [(''user_id'', Eq (VStr ''u2''))]) \<le> 30"
    by (simp add: find_def demo_store_def)
  have f: "set_if (Some ''u2'') ''user_id'' (set_if None ''squad_id'' []) = [(''user_id'', Eq (VStr ''u2''))]"
    by (simp add: set_if_def)
  have p: "length (find (demo_store, ''post'') (set_if (Some ''u2'') ''user_id'' (set_if None ''squad_id'' []))) \<le> 50"
    by (simp add: find_def demo_store_def f)
  have 1: "\<exists>docs. list_checkins (Some many_checkins) ''u1'' (Some 5) = Inr docs \<and> int (length docs) \<le> 5"
    by (rule T [THEN conjunct1])
  have 2: "list_checkins (Some demo_store) ''u2'' None =
     Inr (map with_id (find (demo_store, ''checkin'') [(''user_id'', Eq (VStr ''u2''))]))"
    by (rule T [THEN conjunct2, THEN conjunct2, THEN conjunct2, THEN conjunct2, THEN conjunct1,
          THEN mp, OF c])
  have 3: "list_posts (Some demo_store) None (Some ''u2'') None =
     Inr (map with_id (find (demo_store, ''post'') (set_if (Some ''u2'') ''user_id'' (set_if None ''squad_id'' []))))"
    by (rule T [THEN conjunct2, THEN conjunct2, THEN conjunct2, THEN conjunct2, THEN conjunct2,
          THEN mp, OF p])
  from n many_checkins_5 1 2 3 [unfolded f] show ?thesis by (intro conjI)
qed

section \<open>Create, then list\<close>

lemma find_after_create:
  assumes "\<forall>x\<in>set (colls s name). \<not> matches f x"
    and "matches f ((''_id'', VOid (next_id s)) # d)"
  shows "find (the (fst (create_document (Some s) name d)), name) f =
           [(''_id'', VOid (next_id s)) # d]"
  using assms by (simp add: find_def create_document_def)

lemma create_handler_result:
  "snd (id_response (create_document (Some s) name d)) =
     Inr (VDict [(''id'', VStr (str_nat (next_id s)))]) \<and>
   fst (id_response (create_document (Some s) name d)) =
     Some (the (fst (create_document (Some s) name d)))"
  by (simp add: id_response_def create_document_def)

lemma no_Eq_match:
  "(\<forall>x\<in>set xs. map_of x k \<noteq> Some v) \<Longrightarrow> \<forall>x\<in>set xs. \<not> matches [(k, Eq v)] x"
  by simp

lemma task_roundtrip:
  assumes "\<forall>x\<in>set (colls s ''task''). map_of x ''user_id'' \<noteq> Some (VStr (task_user_id t))"
  shows "snd (submit_task (Some s) t) = Inr (VDict [(''id'', VStr (str_nat (next_id s)))]) \<and>
         list_tasks (fst (submit_task (Some s) t)) (task_user_id t) None =
           Inr [Task_dump t @ [(''id'', VStr (str_nat (next_id s)))]]"
proof -
  let ?f = "[(''user_id'', Eq (VStr (task_user_id t)))]"
  have m: "matches ?f ((''_id'', VOid (next_id s)) # Task_dump t)"
    by (simp add: Task_dump_def)
  have w: "with_id ((''_id'', VOid (next_id s)) # Task_dump t) =
      Task_dump t @ [(''id'', VStr (str_nat (next_id s)))]"
    by (simp add: with_id_def dict_get_def Task_dump_def)
  from find_after_create [OF no_Eq_match [OF assms] m] w show ?thesis
    by (simp add: submit_task_def list_tasks_def create_handler_result get_documents_def set_if_def)
qed

lemma checkin_roundtrip:
  assumes "\<forall>x\<in>set (colls s ''checkin''). map_of x ''user_id'' \<noteq> Some (VStr (checkin_user_id c))"
  shows "snd (create_checkin (Some s) c) = Inr (VDict [(''id'', VStr (str_nat (next_id s)))]) \<and>
         list_checkins (fst (create_checkin (Some s) c)) (checkin_user_id c) None =
           Inr [Checkin_dump c @ [(''id'', VStr (str_nat (next_id s)))]]"
proof -
  let ?f = "[(''user_id'', Eq (VStr (checkin_user_id c)))]"
  have m: "matches ?f ((''_id'', VOid (next_id s)) # Checkin_dump c)"
    by (simp add: Checkin_dump_def)
  have w: "with_id ((''_id'', VOid (next_id s)) # Checkin_dump c) =
      Checkin_dump c @ [(''id'', VStr (str_nat (next_id s)))]"
    by (simp add: with_id_def dict_get_def Checkin_dump_def)
  from find_after_create [OF no_Eq_match [OF assms] m] w show ?thesis
    by (simp add: create_checkin_def list_checkins_def create_handler_result get_documents_def)
qed

lemma enrollment_roundtrip:
  assumes "\<forall>x\<in>set (colls s ''enrollment''). map_of x ''user_id'' \<noteq> Some (VStr (enr_user_id e))"
  shows "snd (enroll_user (Some s) e) = Inr (VDict [(''id'', VStr (str_nat (next_id s)))]) \<and>
         list_enrollments (fst (enroll_user (Some s) e)) (enr_user_id e) =
           Inr [Enrollment_dump e @ [(''id'', VStr (str_nat (next_id s)))]]"
proof -
  let ?f = "[(''user_id'', Eq (VStr (enr_user_id e)))]"
  have m: "matches ?f ((''_id'', VOid (next_id s)) # Enrollment_dump e)"
    by (simp add: Enrollment_dump_def)
  have w: "with_id ((''_id'', VOid (next_id s)) # Enrollment_dump e) =
      Enrollment_dump e @ [(''id'', VStr (str_nat (next_id s)))]"
    by (simp add: with_id_def dict_get_def Enrollment_dump_def)
  from find_after_create [OF no_Eq_match [OF assms] m] w show ?thesis
    by (simp add: enroll_user_def list_enrollments_def create_handler_result get_documents_def)
qed

lemma post_roundtrip:
  assumes "post_user_id p \<noteq> []"
    and "\<forall>x\<in>set (colls s ''post''). map_of x ''user_id'' \<noteq> Some (VStr (post_user_id p))"
  shows "snd (create_post (Some s) p) = Inr (VDict [(''id'', VStr (str_nat (next_id s)))]) \<and>
         list_posts (fst (create_post (Some s) p)) None (Some (post_user_id p)) None =
           Inr [Post_dump p @ [(''id'', VStr (str_nat (next_id s)))]]"
proof -
  let ?f = "[(''user_id'', Eq (VStr (post_user_id p)))]"
  have m: "matches ?f ((''_id'', VOid (next_id s)) # Post_dump p)"
    by (simp add: Post_dump_def)
  have w: "with_id ((''_id'', VOid (next_id s)) # Post_dump p) =
      Post_dump p @ [(''id'', VStr (str_nat (next_id s)))]"
    by (simp add: with_id_def dict_get_def Post_dump_def)
  from find_after_create [OF no_Eq_match [OF assms(2)] m] w assms(1) show ?thesis
    by (simp add: create_post_def list_posts_def create_handler_result get_documents_def set_if_def)
qed

lemma squad_roundtrip:
  assumes "owner_id q \<noteq> []"
    and "\<forall>x\<in>set (colls s ''squad''). \<not> matches [(''members'', In [VStr (owner_id q)])] x"
  shows "snd (create_squad (Some s) q) = Inr (VDict [(''id'', VStr (str_nat (next_id s)))]) \<and>
         list_squads (fst (create_squad (Some s) q)) (Some (owner_id q)) =
           Inr [Squad_dump (normalized q) @ [(''id'', VStr (str_nat (next_id s)))]]"
proof -
  let ?f = "[(''members'', In [VStr (owner_id q)])]"
  have o: "owner_id q \<in> set (members (normalized q))"
    by (simp add: normalized_def)
  have m: "matches ?f ((''_id'', VOid (next_id s)) # Squad_dump (normalized q))"
    using o by (simp add: Squad_dump_def matches_def list_ex_iff)
  have w: "with_id ((''_id'', VOid (next_id s)) # Squad_dump (normalized q)) =
      Squad_dump (normalized q) @ [(''id'', VStr (str_nat (next_id s)))]"
    by (simp add: with_id_def dict_get_def Squad_dump_def)
  have c: "create_squad (Some s) q = id_response (create_document (Some s) ''squad'' (Squad_dump (normalized q)))"
    by (simp add: create_squad_def normalized_def)
  from find_after_create [OF assms(2) m] w assms(1) show ?thesis
    by (simp add: c list_squads_def create_handler_result get_documents_def)
qed

lemma content_roundtrip:
  assumes "\<forall>x\<in>set (colls s ''contentitem'').
      map_of x ''category'' \<noteq> Some (VStr (category_str (ci_category c)))"
  shows "snd (add_content (Some s) c) = Inr (VDict [(''id'', VStr (str_nat (next_id s)))]) \<and>
         list_content (fst (add_content (Some s) c)) (Some (category_str (ci_category c))) None None =
           Inr [ContentItem_dump c]"
proof -
  let ?f = "[(''category'', Eq (VStr (category_str (ci_category c))))]"
  have ne: "category_str (ci_category c) \<noteq> []"
    by (cases "ci_category c") simp_all
  have m: "matches ?f ((''_id'', VOid (next_id s)) # ContentItem_dump c)"
    by (simp add: ContentItem_dump_def)
  have w: "AList.delete ''_id'' ((''_id'', VOid (next_id s)) # ContentItem_dump c) = ContentItem_dump c"
    by (simp add: ContentItem_dump_def)
  from find_after_create [OF no_Eq_match [OF assms] m] w ne show ?thesis
    by (simp add: add_content_def list_content_def create_handler_result get_documents_def set_if_def)
qed

lemma program_roundtrip:
  assumes "\<forall>x\<in>set (colls s ''program''). map_of x ''tier'' \<noteq> Some (VStr (tier_str (prog_tier g)))"
  shows "snd (create_program (Some s) g) = Inr (VDict [(''id'', VStr (str_nat (next_id s)))]) \<and>
         list_programs (fst (create_program (Some s) g)) (Some (tier_str (prog_tier g))) =
           Inr [Program_dump g]"
proof -
  let ?f = "[(''tier'', Eq (VStr (tier_str (prog_tier g))))]"
  have ne: "tier_str (prog_tier g) \<noteq> []"
    by (cases "prog_tier g") simp_all
  have m: "matches ?f ((''_id'', VOid (next_id s)) # Program_dump g)"
    by (simp add: Program_dump_def)
  have w: "AList.delete ''_id'' ((''_id'', VOid (next_id s)) # Program_dump g) = Program_dump g"
    by (simp add: Program_dump_def)
  from find_after_create [OF no_Eq_match [OF assms] m] w ne show ?thesis
    by (simp add: create_program_def list_programs_def create_handler_result get_documents_def set_if_def)
qed

text \<open>
  C2, as stated, fails. A squad submitted with owner "u1" and no members comes back from
  \<^verbatim>\<open>GET /squads\<close> with the members ["u1"], not the submitted empty list. And a post
  whose \<^verbatim>\<open>user_id\<close> is the empty string, created on a store holding one post of
  another user and none with the empty \<^verbatim>\<open>user_id\<close>, comes back together with that
  other post: \<^verbatim>\<open>list_posts\<close> sets no filter for an empty \<^verbatim>\<open>user_id\<close>.
\<close>

theorem roundtrip_counterexample:
  "list_squads (fst (create_squad (Some empty_store) morning_crew)) (Some ''u1'') =
     Inr [[(''name'', VStr ''Morning Crew''), (''description'', VNone), (''owner_id'', VStr ''u1''),
           (''members'', VList [VStr ''u1'']), (''id'', VStr ''0'')]] \<and>
   map_of (Squad_dump morning_crew) ''members'' = Some (VList []) \<and>
   find (demo_store, ''post'') [(''user_id'', Eq (VStr []))] = [] \<and>
   map_sum id length (list_posts (fst (create_post (Some demo_store) anonymous_post)) None (Some []) None) =
     Inr 2"
proof (intro conjI)
  show "list_squads (fst (create_squad (Some empty_store) morning_crew)) (Some ''u1'') =
     Inr [[(''name'', VStr ''Morning Crew''), (''description'', VNone), (''owner_id'', VStr ''u1''),
           (''members'', VList [VStr ''u1'']), (''id'', VStr ''0'')]]"
    by (simp add: create_squad_def create_document_def id_response_def empty_store_def
        morning_crew_def Squad_dump_def opt_str_def list_squads_def get_documents_def find_def
        matches_def with_id_def dict_get_def str_nat.simps digit_char_def)
  show "map_of (Squad_dump morning_crew) ''members'' = Some (VList [])"
    by (simp add: Squad_dump_def morning_crew_def)
  show "find (demo_store, ''post'') [(''user_id'', Eq (VStr []))] = []"
    by (simp add: find_def demo_store_def Post_dump_def post_u2_def)
  show "map_sum id length
      (list_posts (fst (create_post (Some demo_store) anonymous_post)) None (Some []) None) = Inr 2"
    by (simp add: create_post_def create_document_def id_response_def list_posts_def
        get_documents_def find_def set_if_def matches_def demo_store_def)
qed

text \<open>
  C2, amended. On a store holding no record with the same value of the field, creating
  a record and listing by that field returns exactly one record, with the fields of the
  submitted payload: a task, check-in or enrollment listed by its \<^verbatim>\<open>user_id\<close> and a
  post listed by its non-empty \<^verbatim>\<open>user_id\<close> (each with the string \<^verbatim>\<open>id\<close> that the
  create returned), a content item listed by its category and a program listed by its
  tier (without identifier). A squad listed by its non-empty owner as \<^verbatim>\<open>member_id\<close>,
  on a store where no squad has that member, comes back with the submitted fields and the
  owner added to the members when missing.
\<close>

theorem create_then_list:
  "((\<forall>x\<in>set (colls s ''task''). map_of x ''user_id'' \<noteq> Some (VStr (task_user_id t))) \<longrightarrow>
      snd (submit_task (Some s) t) = Inr (VDict [(''id'', VStr (str_nat (next_id s)))]) \<and>
      list_tasks (fst (submit_task (Some s) t)) (task_user_id t) None =
        Inr [Task_dump t @ [(''id'', VStr (str_nat (next_id s)))]]) \<and>
   ((\<forall>x\<in>set (colls s ''checkin''). map_of x ''user_id'' \<noteq> Some (VStr (checkin_user_id c))) \<longrightarrow>
      snd (create_checkin (Some s) c) = Inr (VDict [(''id'', VStr (str_nat (next_id s)))]) \<and>
      list_checkins (fst (create_checkin (Some s) c)) (checkin_user_id c) None =
        Inr [Checkin_dump c @ [(''id'', VStr (str_nat (next_id s)))]]) \<and>
   ((\<forall>x\<in>set (colls s ''enrollment''). map_of x ''user_id'' \<noteq> Some (VStr (enr_user_id e))) \<longrightarrow>
      snd (enroll_user (Some s) e) = Inr (VDict [(''id'', VStr (str_nat (next_id s)))]) \<and>
      list_enrollments (fst (enroll_user (Some s) e)) (enr_user_id e) =
        Inr [Enrollment_dump e @ [(''id'', VStr (str_nat (next_id s)))]]) \<and>
   (post_user_id p \<noteq> [] \<and>
    (\<forall>x\<in>set (colls s ''post''). map_of x ''user_id'' \<noteq> Some (VStr (post_user_id p))) \<longrightarrow>
      snd (create_post (Some s) p) = Inr (VDict [(''id'', VStr (str_nat (next_id s)))]) \<and>
      list_posts (fst (create_post (Some s) p)) None (Some (post_user_id p)) None =
        Inr [Post_dump p @ [(''id'', VStr (str_nat (next_id s)))]]) \<and>
   (owner_id q \<noteq> [] \<and>
    (\<forall>x\<in>set (colls s ''squad''). \<not> matches [(''members'', In [VStr (owner_id q)])] x) \<longrightarrow>
      snd (create_squad (Some s) q) = Inr (VDict [(''id'', VStr (str_nat (next_id s)))]) \<and>
      list_squads (fst (create_squad (Some s) q)) (Some (owner_id q)) =
        Inr [Squad_dump (normalized q) @ [(''id'', VStr (str_nat (next_id s)))]]) \<and>
   ((\<forall>x\<in>set (colls s ''contentitem'').
        map_of x ''category'' \<noteq> Some (VStr (category_str (ci_category i)))) \<longrightarrow>
      snd (add_content (Some s) i) = Inr (VDict [(''id'', VStr (str_nat (next_id s)))]) \<and>
      list_content (fst (add_content (Some s) i)) (Some (category_str (ci_category i))) None None =
        Inr [ContentItem_dump i]) \<and>
   ((\<forall>x\<in>set (colls s ''program''). map_of x ''tier'' \<noteq> Some (VStr (tier_str (prog_tier g)))) \<longrightarrow>
      snd (create_program (Some s) g) = Inr (VDict [(''id'', VStr (str_nat (next_id s)))]) \<and>
      list_programs (fst (create_program (Some s) g)) (Some (tier_str (prog_tier g))) =
        Inr [Program_dump g])"
proof (intro conjI impI)
  assume "\<forall>x\<in>set (colls s ''task''). map_of x ''user_id'' \<noteq> Some (VStr (task_user_id t))"
  from task_roundtrip [OF this]
  show "snd (submit_task (Some s) t) = Inr (VDict [(''id'', VStr (str_nat (next_id s)))])"
    and "list_tasks (fst (submit_task (Some s) t)) (task_user_id t) None =
        Inr [Task_dump t @ [(''id'', VStr (str_nat (next_id s)))]]"
    by (rule conjunct1, rule conjunct2)
next
  assume "\<forall>x\<in>set (colls s ''checkin''). map_of x ''user_id'' \<noteq> Some (VStr (checkin_user_id c))"
  from checkin_roundtrip [OF this]
  show "snd (create_checkin (Some s) c) = Inr (VDict [(''id'', VStr (str_nat (next_id s)))])"
    and "list_checkins (fst (create_checkin (Some s) c)) (checkin_user_id c) None =
        Inr [Checkin_dump c @ [(''id'', VStr (str_nat (next_id s)))]]"
    by (rule conjunct1, rule conjunct2)
next
  assume "\<forall>x\<in>set (colls s ''enrollment''). map_of x ''user_id'' \<noteq> Some (VStr (enr_user_id e))"
  from enrollment_roundtrip [OF this]
  show "snd (enroll_user (Some s) e) = Inr (VDict [(''id'', VStr (str_nat (next_id s)))])"
    and "list_enrollments (fst (enroll_user (Some s) e)) (enr_user_id e) =
        Inr [Enrollment_dump e @ [(''id'', VStr (str_nat (next_id s)))]]"
    by (rule conjunct1, rule conjunct2)
next
  assume "post_user_id p \<noteq> [] \<and>
    (\<forall>x\<in>set (colls s ''post''). map_of x ''user_id'' \<noteq> Some (VStr (post_user_id p)))"
  then have "post_user_id p \<noteq> []"
    and "\<forall>x\<in>set (colls s ''post''). map_of x ''user_id'' \<noteq> Some (VStr (post_user_id p))"
    by (rule conjunct1, rule conjunct2)
  from post_roundtrip [OF this]
  show "snd (create_post (Some s) p) = Inr (VDict [(''id'', VStr (str_nat (next_id s)))])"
    and "list_posts (fst (create_post (Some s) p)) None (Some (post_user_id p)) None =
        Inr [Post_dump p @ [(''id'', VStr (str_nat (next_id s)))]]"
    by (rule conjunct1, rule conjunct2)
next
  assume "owner_id q \<noteq> [] \<and>
    (\<forall>x\<in>set (colls s ''squad''). \<not> matches [(''members'', In [VStr (owner_id q)])] x)"
  then have "owner_id q \<noteq> []"
    and "\<forall>x\<in>set (colls s ''squad''). \<not> matches [(''members'', In [VStr (owner_id q)])] x"
    by (rule conjunct1, rule conjunct2)
  from squad_roundtrip [OF this]
  show "snd (create_squad (Some s) q) = Inr (VDict [(''id'', VStr (str_nat (next_id s)))])"
    and "list_squads (fst (create_squad (Some s) q)) (Some (owner_id q)) =
        Inr [Squad_dump (normalized q) @ [(''id'', VStr (str_nat (next_id s)))]]"
    by (rule conjunct1, rule conjunct2)
next
  assume "\<forall>x\<in>set (colls s ''contentitem'').
        map_of x ''category'' \<noteq> Some (VStr (category_str (ci_category i)))"
  from content_roundtrip [OF this]
  show "snd (add_content (Some s) i) = Inr (VDict [(''id'', VStr (str_nat (next_id s)))])"
    and "list_content (fst (add_content (Some s) i)) (Some (category_str (ci_category i))) None None =
        Inr [ContentItem_dump i]"
    by (rule conjunct1, rule conjunct2)
next
  assume "\<forall>x\<in>set (colls s ''program''). map_of x ''tier'' \<noteq> Some (VStr (tier_str (prog_tier g)))"
  from program_roundtrip [OF this]
  show "snd (create_program (Some s) g) = Inr (VDict [(''id'', VStr (str_nat (next_id s)))])"
    and "list_programs (fst (create_program (Some s) g)) (Some (tier_str (prog_tier g))) =
        Inr [Program_dump g]"
    by (rule conjunct1, rule conjunct2)
qed

theorem create_then_list_witness:
  "list_tasks (fst (submit_task (Some demo_store) (task_u2\<lparr>task_user_id := ''u1''\<rparr>))) ''u1'' None =
     Inr [Task_dump (task_u2\<lparr>task_user_id := ''u1''\<rparr>) @ [(''id'', VStr ''8'')]] \<and>
   list_checkins (fst (create_checkin (Some demo_store) (checkin_u2\<lparr>checkin_user_id := ''u1''\<rparr>)))
       ''u1'' None =
     Inr [Checkin_dump (checkin_u2\<lparr>checkin_user_id := ''u1''\<rparr>) @ [(''id'', VStr ''8'')]] \<and>
   list_enrollments (fst (enroll_user (Some demo_store) (enrollment_u2\<lparr>enr_user_id := ''u1''\<rparr>))) ''u1'' =
     Inr [Enrollment_dump (enrollment_u2\<lparr>enr_user_id := ''u1''\<rparr>) @ [(''id'', VStr ''8'')]] \<and>
   list_posts (fst (create_post (Some demo_store) (post_u2\<lparr>post_user_id := ''u1''\<rparr>)))
       None (Some ''u1'') None =
     Inr [Post_dump (post_u2\<lparr>post_user_id := ''u1''\<rparr>) @ [(''id'', VStr ''8'')]] \<and>
   list_squads (fst (create_squad (Some demo_store) morning_crew)) (Some ''u1'') =
     Inr [Squad_dump (morning_crew\<lparr>members := [''u1'']\<rparr>) @ [(''id'', VStr ''8'')]] \<and>
   list_content (fst (add_content (Some demo_store) (breathing_101\<lparr>ci_category := Art\<rparr>)))
       (Some ''art'') None None =
     Inr [ContentItem_dump (breathing_101\<lparr>ci_category := Art\<rparr>)] \<and>
   list_programs (fst (create_program (Some demo_store) (program_pro\<lparr>prog_tier := Free\<rparr>)))
       (Some ''free'') =
     Inr [Program_dump (program_pro\<lparr>prog_tier := Free\<rparr>)]"
proof -
  note T = create_then_list [where s = demo_store]
  have n: "str_nat (next_id demo_store) = ''8''"
    by (simp add: demo_store_def str_nat.simps digit_char_def)
  let ?t = "task_u2\<lparr>task_user_id := ''u1''\<rparr>"
  have "\<forall>x\<in>set (colls demo_store ''task''). map_of x ''user_id'' \<noteq> Some (VStr (task_user_id ?t))"
    by (simp add: demo_store_def Task_dump_def task_u2_def)
  from T [THEN conjunct1, THEN mp, OF this, THEN conjunct2]
  have 1: "list_tasks (fst (submit_task (Some demo_store) ?t)) ''u1'' None =
      Inr [Task_dump ?t @ [(''id'', VStr ''8'')]]"
    by (simp add: n)
  let ?c = "checkin_u2\<lparr>checkin_user_id := ''u1''\<rparr>"
  have "\<forall>x\<in>set (colls demo_store ''checkin''). map_of x ''user_id'' \<noteq> Some (VStr (checkin_user_id ?c))"
    by (simp add: demo_store_def Checkin_dump_def checkin_u2_def)
  from T [THEN conjunct2, THEN conjunct1, THEN mp, OF this, THEN conjunct2]
  have 2: "list_checkins (fst (create_checkin (Some demo_store) ?c)) ''u1'' None =
      Inr [Checkin_dump ?c @ [(''id'', VStr ''8'')]]"
    by (simp add: n)
  let ?e = "enrollment_u2\<lparr>enr_user_id := ''u1''\<rparr>"
  have "\<forall>x\<in>set (colls demo_store ''enrollment''). map_of x ''user_id'' \<noteq> Some (VStr (enr_user_id ?e))"
    by (simp add: demo_store_def Enrollment_dump_def enrollment_u2_def)
  from T [THEN conjunct2, THEN conjunct2, THEN conjunct1, THEN mp, OF this, THEN conjunct2]
  have 3: "list_enrollments (fst (enroll_user (Some demo_store) ?e)) ''u1'' =
      Inr [Enrollment_dump ?e @ [(''id'', VStr ''8'')]]"
    by (simp add: n)
  let ?p = "post_u2\<lparr>post_user_id := ''u1''\<rparr>"
  have "post_user_id ?p \<noteq> [] \<and>
      (\<forall>x\<in>set (colls demo_store ''post''). map_of x ''user_id'' \<noteq> Some (VStr (post_user_id ?p)))"
    by (simp add: demo_store_def Post_dump_def post_u2_def)
  from T [THEN conjunct2, THEN conjunct2, THEN conjunct2, THEN conjunct1, THEN mp, OF this,
      THEN conjunct2]
  have 4: "list_posts (fst (create_post (Some demo_store) ?p)) None (Some ''u1'') None =
      Inr [Post_dump ?p @ [(''id'', VStr ''8'')]]"
    by (simp add: n)
  have "owner_id morning_crew \<noteq> [] \<and>
      (\<forall>x\<in>set (colls demo_store ''squad'').
          \<not> matches [(''members'', In [VStr (owner_id morning_crew)])] x)"
    by (simp add: demo_store_def Squad_dump_def squad_u2_def morning_crew_def matches_def)
  from T [THEN conjunct2, THEN conjunct2, THEN conjunct2, THEN conjunct2, THEN conjunct1, THEN mp,
      OF this, THEN conjunct2]
  have 5: "list_squads (fst (create_squad (Some demo_store) morning_crew)) (Some ''u1'') =
      Inr [Squad_dump (morning_crew\<lparr>members := [''u1'']\<rparr>) @ [(''id'', VStr ''8'')]]"
    by (simp add: n normalized_def morning_crew_def)
  let ?i = "breathing_101\<lparr>ci_category := Art\<rparr>"
  have "\<forall>x\<in>set (colls demo_store ''contentitem'').
      map_of x ''category'' \<noteq> Some (VStr (category_str (ci_category ?i)))"
    by (simp add: demo_store_def breathing_doc_def)
  from T [THEN conjunct2, THEN conjunct2, THEN conjunct2, THEN conjunct2, THEN conjunct2,
      THEN conjunct1, THEN mp, OF this, THEN conjunct2]
  have 6: "list_content (fst (add_content (Some demo_store) ?i)) (Some ''art'') None None =
      Inr [ContentItem_dump ?i]"
    by simp
  let ?g = "program_pro\<lparr>prog_tier := Free\<rparr>"
  have "\<forall>x\<in>set (colls demo_store ''program'').
      map_of x ''tier'' \<noteq> Some (VStr (tier_str (prog_tier ?g)))"
    by (simp add: demo_store_def Program_dump_def program_pro_def)
  from T [THEN conjunct2, THEN conjunct2, THEN conjunct2, THEN conjunct2, THEN conjunct2,
      THEN conjunct2, THEN mp, OF this, THEN conjunct2]
  have 7: "list_programs (fst (create_program (Some demo_store) ?g)) (Some ''free'') =
      Inr [Program_dump ?g]"
    by simp
  from 1 2 3 4 5 6 7 show ?thesis by (intro conjI)
qed

end
